theory Spec2Isabelle
  imports Complex_Main "HOL-Library.Log_Nat"
begin

section \<open>Data model (core/models.py)\<close>

text \<open>
  Every table of the relational store is a list of rows, and the primary key of a row is its
  position in the list: rows are appended by \<open>objects.create\<close> and \<open>save\<close> on a new
  object, updated in place, and never removed by the operations modelled here.
  \<open>DecimalField\<close> values are exact rationals, and so is every float, a double being a
  rational; \<open>DateTimeField\<close> values are integers on one time line; Python integers are
  \<open>int\<close>.
  Columns that no modelled operation reads or writes (locations, arrival time, licence data,
  the time stamps set by the framework) are left out.

  The columns have the bounds of the database behind them. An \<open>IntegerField\<close> column holds
  a signed 64-bit integer: \<open>save\<close> of a row with a value outside raises, and the request
  ends in a 500 with the writes made before it kept, since the views run without a transaction.
  A \<open>DecimalField(max_digits=10, decimal_places=2)\<close> column is written unchecked, and
  converting a stored value of more than eight integer digits raises when the row is loaded.
  A trip's \<open>price\<close> is written only by the validated trip form; a booking's
  \<open>total_price\<close> is the product the booking view computes, which can exceed the column.
\<close>

datatype user_type = ADMINISTRATOR | DRIVER | PASSENGER

datatype trip_status = UPCOMING | ONGOING | COMPLETED | CANCELLED

datatype booking_status = B_CONFIRMED | B_CANCELLED | B_COMPLETED

datatype driver_status = AVAILABLE | ON_TRIP | OFF_DUTY | SUSPENDED

record User =
  uid :: nat
  u_type :: user_type

record Vehicle =
  capacity :: int
  v_average_rating :: rat

record Driver =
  d_user :: nat
  d_average_rating :: rat
  total_trips :: int
  d_status :: driver_status

record Trip =
  t_driver :: "nat option"
  t_vehicle :: "nat option"
  trip_name :: string
  departure_time :: int
  price :: rat
  available_seats :: int
  t_status :: trip_status
  cancelled_by :: "string option"
  cancellation_reason :: "string option"

record TripBooking =
  b_trip :: nat
  b_user :: nat
  seats_booked :: int
  total_price :: rat
  b_status :: booking_status

record Rating =
  r_trip :: nat
  r_user :: nat
  r_driver :: "nat option"
  r_vehicle :: "nat option"
  driver_rating :: "int option"
  vehicle_rating :: "int option"
  driver_comment :: "string option"

record AdminLog =
  l_admin :: nat
  action_type :: string
  entity_type :: string
  entity_id :: nat
  description :: string

record db =
  vehicles :: "Vehicle list"
  drivers :: "Driver list"
  trips :: "Trip list"
  bookings :: "TripBooking list"
  ratings :: "Rating list"
  admin_logs :: "AdminLog list"

definition is_admin :: "User \<Rightarrow> bool" where
  "is_admin u \<longleftrightarrow> u_type u = ADMINISTRATOR"

definition is_driver :: "User \<Rightarrow> bool" where
  "is_driver u \<longleftrightarrow> u_type u = DRIVER"

definition is_passenger :: "User \<Rightarrow> bool" where
  "is_passenger u \<longleftrightarrow> u_type u = PASSENGER"

text \<open>\<open>Trip.is_bookable\<close>; the first argument is \<open>timezone.now()\<close> at the call.\<close>

definition is_bookable :: "int \<Rightarrow> Trip \<Rightarrow> bool" where
  "is_bookable now t \<longleftrightarrow>
     t_status t = UPCOMING \<and> available_seats t > 0 \<and> departure_time t > now"

section \<open>Requests, responses and the framework's part\<close>

text \<open>
  A view receives the authenticated user of the request (\<open>None\<close> for an anonymous one) and
  the method; \<open>POST\<close> carries the posted form data, \<open>GET\<close> stands for every method that is
  not \<open>POST\<close>. A response is a redirect (with the level of the flash message queued, if any),
  a rendered template, a 404, or the 500 of an uncaught \<open>DoesNotExist\<close> on a dangling
  foreign key.
\<close>

datatype 'a http_method = GET | POST 'a

datatype level = INFO | SUCCESS | WARNING | ERROR

datatype response =
    Redirect string "level option"
  | Render string
  | Http404
  | ServerError

text \<open>The values an \<open>IntegerField\<close> column stores.\<close>

definition in_int64 :: "int \<Rightarrow> bool" where
  "in_int64 n \<longleftrightarrow> - (2 ^ 63) \<le> n \<and> n < 2 ^ 63"

text \<open>The values a \<open>DecimalField(max_digits=10, decimal_places=2)\<close> column loads.\<close>

definition decimal_10_2 :: "rat \<Rightarrow> bool" where
  "decimal_10_2 v \<longleftrightarrow> \<bar>v\<bar> < 10 ^ 8"

text \<open>\<open>Model.objects.get(id=i)\<close>: the row, if there is one.\<close>

definition get_object :: "'a list \<Rightarrow> nat \<Rightarrow> 'a option" where
  "get_object tbl i = (if i < length tbl then Some (tbl ! i) else None)"

fun first_index :: "('a \<Rightarrow> bool) \<Rightarrow> 'a list \<Rightarrow> nat option" where
  "first_index P [] = None"
| "first_index P (x # xs) = (if P x then Some 0 else map_option Suc (first_index P xs))"

text \<open>\<open>request.user.driver_profile\<close>: the driver row whose one-to-one \<open>user\<close> is the caller.\<close>

definition driver_profile :: "db \<Rightarrow> User \<Rightarrow> nat option" where
  "driver_profile s u = first_index (\<lambda>d. d_user d = uid u) (drivers s)"

text \<open>
  \<open>str.strip\<close> as the form fields apply it, on the code points below 256 that
  \<open>str.isspace\<close> accepts.
\<close>

definition isspace :: "char \<Rightarrow> bool" where
  "isspace c \<longleftrightarrow> (of_char c :: nat) \<in> {9, 10, 11, 12, 13, 28, 29, 30, 31, 32, 133, 160}"

definition strip :: "string \<Rightarrow> string" where
  "strip v = rev (dropWhile isspace (rev (dropWhile isspace v)))"

text \<open>
  \<open>BookingForm\<close>: one required \<open>IntegerField(min_value=1)\<close>. The posted value is the integer
  it denotes, \<open>None\<close> when the field is absent or malformed. Assigning \<open>max_value\<close> after the
  field is built installs no validator, so the form has no upper bound of its own.
\<close>

definition BookingForm_clean :: "int option \<Rightarrow> int option" where
  "BookingForm_clean raw =
     (case raw of None \<Rightarrow> None | Some n \<Rightarrow> if n < 1 then None else Some n)"

text \<open>
  \<open>CancelTripForm\<close>: one required \<open>CharField\<close>, stripped; the empty value and a value
  with a null character are refused.
\<close>

definition CancelTripForm_clean :: "string \<Rightarrow> string option" where
  "CancelTripForm_clean raw =
     (let v = strip raw in if v = [] \<or> CHR 0x00 \<in> set v then None else Some v)"

text \<open>
  \<open>RatingForm\<close>: two required choice fields over 1..5 and an optional comment, a stripped
  character field whose empty value is the empty string and which refuses a null character.
\<close>

definition star_ok :: "int option \<Rightarrow> bool" where
  "star_ok raw = (case raw of None \<Rightarrow> False | Some n \<Rightarrow> 1 \<le> n \<and> n \<le> 5)"

definition RatingForm_clean ::
  "int option \<times> int option \<times> string \<Rightarrow> (int \<times> int \<times> string option) option" where
  "RatingForm_clean raw =
     (case raw of (dr, vr, c) \<Rightarrow>
        if star_ok dr \<and> star_ok vr \<and> CHR 0x00 \<notin> set (strip c)
        then Some (the dr, the vr, Some (strip c))
        else None)"

section \<open>Booking (core/views.py, trip_book_view and cancel_booking_view)\<close>

definition has_confirmed :: "db \<Rightarrow> nat \<Rightarrow> nat \<Rightarrow> bool" where
  "has_confirmed s trip_id u =
     list_ex (\<lambda>b. b_trip b = trip_id \<and> b_user b = u \<and> b_status b = B_CONFIRMED) (bookings s)"

definition trip_book_view ::
  "db \<Rightarrow> int \<Rightarrow> User option \<Rightarrow> int option http_method \<Rightarrow> nat \<Rightarrow> response \<times> db" where
  "trip_book_view s now ru m trip_id =
     (case ru of
        None \<Rightarrow> (Redirect ''login'' None, s)
      | Some u \<Rightarrow>
         (if \<not> is_passenger u then (Redirect ''dashboard'' (Some ERROR), s)
          else
           (case get_object (trips s) trip_id of
              None \<Rightarrow> (Http404, s)
            | Some trip \<Rightarrow>
               (if \<not> is_bookable now trip
                  then (Redirect ''core:trip_detail'' (Some ERROR), s)
                else if has_confirmed s trip_id (uid u)
                  then (Redirect ''core:trip_detail'' (Some WARNING), s)
                else
                 (case m of
                    GET \<Rightarrow> (Render ''core/trips/book.html'', s)
                  | POST raw \<Rightarrow>
                     (case BookingForm_clean raw of
                        None \<Rightarrow> (Render ''core/trips/book.html'', s)
                      | Some seats \<Rightarrow>
                         (if seats > available_seats trip
                            then (Redirect ''core:trip_book'' (Some ERROR), s)
                          else
                            (Redirect ''core:my_bookings'' (Some SUCCESS),
                             s\<lparr>bookings := bookings s @
                                  [\<lparr>b_trip = trip_id, b_user = uid u, seats_booked = seats,
                                    total_price = price trip * of_int seats,
                                    b_status = B_CONFIRMED\<rparr>],
                               trips := (trips s)[trip_id :=
                                  trip\<lparr>available_seats :=
                                    available_seats trip - seats\<rparr>]\<rparr>))))))))"

definition booked :: "response \<Rightarrow> bool" where
  "booked r \<longleftrightarrow> r = Redirect ''core:my_bookings'' (Some SUCCESS)"

text \<open>
  \<open>get_object_or_404(TripBooking, id=booking_id, user=request.user)\<close> selects the row by
  key and user and then converts it, which fails on a \<open>total_price\<close> the column cannot
  load. Then the two guards, then \<open>booking.save()\<close>, and only then \<open>trip.save()\<close> with
  the raised seat count, which fails when the count leaves the column's range: the booking is
  then already saved as Cancelled.
\<close>

definition cancel_booking_view ::
  "db \<Rightarrow> User option \<Rightarrow> unit http_method \<Rightarrow> nat \<Rightarrow> response \<times> db" where
  "cancel_booking_view s ru m booking_id =
     (case ru of
        None \<Rightarrow> (Redirect ''login'' None, s)
      | Some u \<Rightarrow>
         (if \<not> is_passenger u then (Redirect ''dashboard'' (Some ERROR), s)
          else
           (case get_object (bookings s) booking_id of
              None \<Rightarrow> (Http404, s)
            | Some booking \<Rightarrow>
               (if b_user booking \<noteq> uid u then (Http404, s)
                else if \<not> decimal_10_2 (total_price booking) then (ServerError, s)
                else if b_status booking \<noteq> B_CONFIRMED
                  then (Redirect ''core:my_bookings'' (Some WARNING), s)
                else
                 (case get_object (trips s) (b_trip booking) of
                    None \<Rightarrow> (ServerError, s)
                  | Some trip \<Rightarrow>
                     (if t_status trip \<noteq> UPCOMING
                        then (Redirect ''core:my_bookings'' (Some WARNING), s)
                      else
                       (case m of
                          GET \<Rightarrow> (Render ''core/trips/cancel_booking.html'', s)
                        | POST _ \<Rightarrow>
                           (if \<not> in_int64 (available_seats trip + seats_booked booking)
                              then
                               (ServerError,
                                s\<lparr>bookings := (bookings s)[booking_id :=
                                     booking\<lparr>b_status := B_CANCELLED\<rparr>]\<rparr>)
                            else
                             (Redirect ''core:my_bookings'' (Some SUCCESS),
                              s\<lparr>bookings := (bookings s)[booking_id :=
                                   booking\<lparr>b_status := B_CANCELLED\<rparr>],
                                trips := (trips s)[b_trip booking :=
                                   trip\<lparr>available_seats :=
                                     available_seats trip + seats_booked booking\<rparr>]\<rparr>)))))))))"


section \<open>Trip lifecycle (core/views.py, trip_cancel_view and the driver views)\<close>

definition log_admin_action ::
  "db \<Rightarrow> User \<Rightarrow> string \<Rightarrow> string \<Rightarrow> nat \<Rightarrow> string \<Rightarrow> db" where
  "log_admin_action s admin_user act ent ent_id descr =
     s\<lparr>admin_logs := admin_logs s @
          [\<lparr>l_admin = uid admin_user, action_type = act, entity_type = ent,
            entity_id = ent_id, description = descr\<rparr>]\<rparr>"

text \<open>
  The only status guard of the administrator's cancellation is the test for \<open>CANCELLED\<close>;
  the update of the bookings filters on the trip alone.
\<close>

definition trip_cancel_view ::
  "db \<Rightarrow> User option \<Rightarrow> string http_method \<Rightarrow> nat \<Rightarrow> response \<times> db" where
  "trip_cancel_view s ru m trip_id =
     (case ru of
        None \<Rightarrow> (Redirect ''login'' None, s)
      | Some u \<Rightarrow>
         (if \<not> is_admin u then (Redirect ''dashboard'' (Some ERROR), s)
          else
           (case get_object (trips s) trip_id of
              None \<Rightarrow> (Http404, s)
            | Some trip \<Rightarrow>
               (if t_status trip = CANCELLED
                  then (Redirect ''core:trip_list_admin'' (Some WARNING), s)
                else
                 (case m of
                    GET \<Rightarrow> (Render ''core/admin/trip_cancel.html'', s)
                  | POST raw \<Rightarrow>
                     (case CancelTripForm_clean raw of
                        None \<Rightarrow> (Render ''core/admin/trip_cancel.html'', s)
                      | Some reason \<Rightarrow>
                         (Redirect ''core:trip_list_admin'' (Some SUCCESS),
                          log_admin_action
                            (s\<lparr>trips := (trips s)[trip_id :=
                                  trip\<lparr>t_status := CANCELLED,
                                       cancelled_by := Some ''Administrator'',
                                       cancellation_reason := Some reason\<rparr>],
                               bookings := map (\<lambda>b. if b_trip b = trip_id
                                                   then b\<lparr>b_status := B_CANCELLED\<rparr> else b)
                                               (bookings s)\<rparr>)
                            u ''CANCEL'' ''Trip'' trip_id
                            (''Cancelled trip: '' @ trip_name trip))))))))"

definition trip_cancelled :: "response \<Rightarrow> bool" where
  "trip_cancelled r \<longleftrightarrow> r = Redirect ''core:trip_list_admin'' (Some SUCCESS)"

text \<open>
  The driver views select the trip by key and driver, guard on its status, and on a POST save
  the trip first and the driver's row last. Completion raises \<open>total_trips\<close> by one;
  when the raised count leaves the range of its column, \<open>driver.save()\<close> fails after the
  trip and its bookings have been written.
\<close>

definition driver_start_trip_view ::
  "db \<Rightarrow> User option \<Rightarrow> unit http_method \<Rightarrow> nat \<Rightarrow> response \<times> db" where
  "driver_start_trip_view s ru m trip_id =
     (case ru of
        None \<Rightarrow> (Redirect ''login'' None, s)
      | Some u \<Rightarrow>
         (if \<not> is_driver u then (Redirect ''dashboard'' (Some ERROR), s)
          else
           (case driver_profile s u of
              None \<Rightarrow> (Redirect ''core:dashboard'' (Some ERROR), s)
            | Some driver_id \<Rightarrow>
               (case get_object (trips s) trip_id of
                  None \<Rightarrow> (Http404, s)
                | Some trip \<Rightarrow>
                   (if t_driver trip \<noteq> Some driver_id then (Http404, s)
                    else if t_status trip \<noteq> UPCOMING
                      then (Redirect ''core:driver_trips'' (Some WARNING), s)
                    else
                     (case m of
                        GET \<Rightarrow> (Render ''core/driver/start_trip.html'', s)
                      | POST _ \<Rightarrow>
                         (Redirect ''core:driver_trips'' (Some SUCCESS),
                          s\<lparr>trips := (trips s)[trip_id := trip\<lparr>t_status := ONGOING\<rparr>],
                            drivers := (drivers s)[driver_id :=
                               (drivers s ! driver_id)\<lparr>d_status := ON_TRIP\<rparr>]\<rparr>)))))))"

definition driver_complete_trip_view ::
  "db \<Rightarrow> User option \<Rightarrow> unit http_method \<Rightarrow> nat \<Rightarrow> response \<times> db" where
  "driver_complete_trip_view s ru m trip_id =
     (case ru of
        None \<Rightarrow> (Redirect ''login'' None, s)
      | Some u \<Rightarrow>
         (if \<not> is_driver u then (Redirect ''dashboard'' (Some ERROR), s)
          else
           (case driver_profile s u of
              None \<Rightarrow> (Redirect ''core:dashboard'' (Some ERROR), s)
            | Some driver_id \<Rightarrow>
               (case get_object (trips s) trip_id of
                  None \<Rightarrow> (Http404, s)
                | Some trip \<Rightarrow>
                   (if t_driver trip \<noteq> Some driver_id then (Http404, s)
                    else if t_status trip \<noteq> ONGOING
                      then (Redirect ''core:driver_trips'' (Some WARNING), s)
                    else
                     (case m of
                        GET \<Rightarrow> (Render ''core/driver/complete_trip.html'', s)
                      | POST _ \<Rightarrow>
                         (if \<not> in_int64 (total_trips (drivers s ! driver_id) + 1)
                            then
                             (ServerError,
                              s\<lparr>trips := (trips s)[trip_id := trip\<lparr>t_status := COMPLETED\<rparr>],
                                bookings :=
                                  map (\<lambda>b. if b_trip b = trip_id \<and> b_status b = B_CONFIRMED
                                           then b\<lparr>b_status := B_COMPLETED\<rparr> else b)
                                      (bookings s)\<rparr>)
                          else
                           (Redirect ''core:driver_trips'' (Some SUCCESS),
                            s\<lparr>trips := (trips s)[trip_id := trip\<lparr>t_status := COMPLETED\<rparr>],
                              bookings :=
                                map (\<lambda>b. if b_trip b = trip_id \<and> b_status b = B_CONFIRMED
                                         then b\<lparr>b_status := B_COMPLETED\<rparr> else b)
                                    (bookings s),
                              drivers := (drivers s)[driver_id :=
                                 (drivers s ! driver_id)\<lparr>d_status := AVAILABLE,
                                   total_trips :=
                                     total_trips (drivers s ! driver_id) + 1\<rparr>]\<rparr>))))))))"

definition driver_done :: "response \<Rightarrow> bool" where
  "driver_done r \<longleftrightarrow> r = Redirect ''core:driver_trips'' (Some SUCCESS)"

section \<open>Rating (core/views.py, rate_trip_view)\<close>

text \<open>
  Rounding to \<open>p\<close> significant digits in base \<open>b\<close>, ties to the even neighbour:
  \<open>ilog b x\<close> is the exponent of the leading digit of a positive \<open>x\<close>. With base 2 and
  53 digits this is the double nearest to a rational (in the range of the normal doubles);
  with base 10 and 3 digits it is \<open>Context(prec=3).create_decimal_from_float\<close>, which
  \<open>DecimalField(max_digits=3)\<close> applies to a float on \<open>save\<close>.
\<close>

definition round_half_even :: "rat \<Rightarrow> int" where
  "round_half_even x =
     (let f = \<lfloor>x\<rfloor>; d = x - of_int f
      in if d < 1 / 2 then f else if 1 / 2 < d then f + 1 else if even f then f else f + 1)"

definition ilog :: "nat \<Rightarrow> rat \<Rightarrow> int" where
  "ilog b x =
     (if 1 \<le> x then int (floorlog b (nat \<lfloor>x\<rfloor>)) - 1
      else - int (floorlog b (nat (\<lceil>1 / x\<rceil> - 1))))"

definition round_sig :: "nat \<Rightarrow> nat \<Rightarrow> rat \<Rightarrow> rat" where
  "round_sig b p x =
     (if x = 0 then 0
      else let q = power_int (of_nat b) (ilog b \<bar>x\<bar> - int p + 1)
           in sgn x * of_int (round_half_even (\<bar>x\<bar> / q)) * q)"

definition to_double :: "rat \<Rightarrow> rat" where
  "to_double x = round_sig 2 53 x"

definition create_decimal_3 :: "rat \<Rightarrow> rat" where
  "create_decimal_3 x = round_sig 10 3 x"

text \<open>
  \<open>Avg\<close> over an integer column skips the nulls and is null on no value; otherwise it is
  the float the database computes, the sum (exact below \<open>2 ^ 53\<close>) divided by the count in
  double precision. The view stores the aggregate only when it is truthy, neither null nor
  zero, by assigning the float to the \<open>average_rating\<close> column of three digits.
\<close>

definition mean :: "int list \<Rightarrow> rat" where
  "mean xs = of_int (sum_list xs) / of_int (int (length xs))"

definition Avg :: "int list \<Rightarrow> rat option" where
  "Avg xs = (if xs = [] then None else Some (to_double (mean xs)))"

definition driver_stars :: "db \<Rightarrow> nat \<Rightarrow> int list" where
  "driver_stars s d = List.map_filter driver_rating (filter (\<lambda>r. r_driver r = Some d) (ratings s))"

definition vehicle_stars :: "db \<Rightarrow> nat \<Rightarrow> int list" where
  "vehicle_stars s v = List.map_filter vehicle_rating (filter (\<lambda>r. r_vehicle r = Some v) (ratings s))"

definition truthy :: "rat option \<Rightarrow> bool" where
  "truthy a = (case a of None \<Rightarrow> False | Some x \<Rightarrow> x \<noteq> 0)"

definition update_driver_average :: "db \<Rightarrow> nat option \<Rightarrow> db" where
  "update_driver_average s ref =
     (case ref of
        None \<Rightarrow> s
      | Some d \<Rightarrow>
          let avg = Avg (driver_stars s d) in
          if truthy avg
          then s\<lparr>drivers := (drivers s)[d :=
                 (drivers s ! d)\<lparr>d_average_rating := create_decimal_3 (the avg)\<rparr>]\<rparr>
          else s)"

definition update_vehicle_average :: "db \<Rightarrow> nat option \<Rightarrow> db" where
  "update_vehicle_average s ref =
     (case ref of
        None \<Rightarrow> s
      | Some v \<Rightarrow>
          let avg = Avg (vehicle_stars s v) in
          if truthy avg
          then s\<lparr>vehicles := (vehicles s)[v :=
                 (vehicles s ! v)\<lparr>v_average_rating := create_decimal_3 (the avg)\<rparr>]\<rparr>
          else s)"

text \<open>Reading \<open>trip.driver\<close> or \<open>trip.vehicle\<close> loads the row the key names.\<close>

definition fk_ok :: "nat option \<Rightarrow> 'a list \<Rightarrow> bool" where
  "fk_ok ref tbl = (case ref of None \<Rightarrow> True | Some i \<Rightarrow> i < length tbl)"

definition has_rating :: "db \<Rightarrow> nat \<Rightarrow> nat \<Rightarrow> bool" where
  "has_rating s trip_id u = list_ex (\<lambda>r. r_trip r = trip_id \<and> r_user r = u) (ratings s)"

definition rate_trip_view ::
  "db \<Rightarrow> User option \<Rightarrow> (int option \<times> int option \<times> string) http_method \<Rightarrow> nat
     \<Rightarrow> response \<times> db" where
  "rate_trip_view s ru m booking_id =
     (case ru of
        None \<Rightarrow> (Redirect ''login'' None, s)
      | Some u \<Rightarrow>
         (if \<not> is_passenger u then (Redirect ''dashboard'' (Some ERROR), s)
          else
           (case get_object (bookings s) booking_id of
              None \<Rightarrow> (Http404, s)
            | Some booking \<Rightarrow>
               (if b_user booking \<noteq> uid u then (Http404, s)
                else if \<not> decimal_10_2 (total_price booking) then (ServerError, s)
                else
                 (case get_object (trips s) (b_trip booking) of
                    None \<Rightarrow> (ServerError, s)
                  | Some trip \<Rightarrow>
                     (if t_status trip \<noteq> COMPLETED
                        then (Redirect ''core:my_bookings'' (Some WARNING), s)
                      else if has_rating s (b_trip booking) (uid u)
                        then (Redirect ''core:my_bookings'' (Some INFO), s)
                      else
                       (case m of
                          GET \<Rightarrow> (Render ''core/trips/rate.html'', s)
                        | POST raw \<Rightarrow>
                           (case RatingForm_clean raw of
                              None \<Rightarrow> (Render ''core/trips/rate.html'', s)
                            | Some (dr, vr, c) \<Rightarrow>
                               (if \<not> (fk_ok (t_driver trip) (drivers s)
                                      \<and> fk_ok (t_vehicle trip) (vehicles s))
                                  then (ServerError, s)
                                else
                                  (Redirect ''core:my_bookings'' (Some SUCCESS),
                                   update_vehicle_average
                                     (update_driver_average
                                        (s\<lparr>ratings := ratings s @
                                             [\<lparr>r_trip = b_trip booking, r_user = uid u,
                                               r_driver = t_driver trip,
                                               r_vehicle = t_vehicle trip,
                                               driver_rating = Some dr,
                                               vehicle_rating = Some vr,
                                               driver_comment = c\<rparr>]\<rparr>)
                                        (t_driver trip))
                                     (t_vehicle trip)))))))))))"

definition rated :: "response \<Rightarrow> bool" where
  "rated r \<longleftrightarrow> r = Redirect ''core:my_bookings'' (Some SUCCESS)"

section \<open>Sequences of booking operations and the seat inventory\<close>

datatype action =
    Book int "User option" "int option http_method" nat
  | CancelBooking "User option" "unit http_method" nat

fun step :: "db \<Rightarrow> action \<Rightarrow> db" where
  "step s (Book now ru m trip_id) = snd (trip_book_view s now ru m trip_id)"
| "step s (CancelBooking ru m booking_id) = snd (cancel_booking_view s ru m booking_id)"

definition run :: "db \<Rightarrow> action list \<Rightarrow> db" where
  "run s acts = foldl step s acts"

definition seats_in :: "booking_status \<Rightarrow> db \<Rightarrow> nat \<Rightarrow> int" where
  "seats_in st s trip_id =
     sum_list (map seats_booked
       (filter (\<lambda>b. b_trip b = trip_id \<and> b_status b = st) (bookings s)))"

definition seats_now :: "db \<Rightarrow> nat \<Rightarrow> int" where
  "seats_now s trip_id = available_seats (trips s ! trip_id)"

definition status_now :: "db \<Rightarrow> nat \<Rightarrow> trip_status" where
  "status_now s trip_id = t_status (trips s ! trip_id)"

text \<open>
  The invariant of the seat inventory of trip \<open>i\<close> between the bounds \<open>lo\<close> and
  \<open>hi\<close>: the trip exists, each of its bookings holds at least one seat, and the seats left
  plus the seats of its Confirmed bookings stay within the bounds.
\<close>

definition inventory_inv :: "int \<Rightarrow> int \<Rightarrow> db \<Rightarrow> nat \<Rightarrow> bool" where
  "inventory_inv lo hi s i \<longleftrightarrow>
     i < length (trips s)
     \<and> (\<forall>b \<in> set (bookings s). b_trip b = i \<longrightarrow> 1 \<le> seats_booked b)
     \<and> lo \<le> seats_now s i
     \<and> seats_now s i + seats_in B_CONFIRMED s i \<le> hi"

section \<open>A small store for the scenarios\<close>

definition root :: User where "root = \<lparr>uid = 0, u_type = ADMINISTRATOR\<rparr>"
definition alice :: User where "alice = \<lparr>uid = 1, u_type = PASSENGER\<rparr>"
definition bob :: User where "bob = \<lparr>uid = 2, u_type = PASSENGER\<rparr>"
definition dave :: User where "dave = \<lparr>uid = 3, u_type = DRIVER\<rparr>"

definition demo_rating :: "nat \<Rightarrow> int \<Rightarrow> int \<Rightarrow> string \<Rightarrow> Rating" where
  "demo_rating u dr vr c =
     \<lparr>r_trip = 0, r_user = u, r_driver = Some 0, r_vehicle = Some 0, driver_rating = Some dr,
      vehicle_rating = Some vr, driver_comment = Some c\<rparr>"

definition demo_trip :: "trip_status \<Rightarrow> Trip" where
  "demo_trip st =
     \<lparr>t_driver = Some 0, t_vehicle = Some 0, trip_name = ''Airport'', departure_time = 100,
      price = 10, available_seats = 3, t_status = st, cancelled_by = None,
      cancellation_reason = None\<rparr>"

definition demo_booking :: "nat \<Rightarrow> int \<Rightarrow> booking_status \<Rightarrow> TripBooking" where
  "demo_booking u n st =
     \<lparr>b_trip = 0, b_user = u, seats_booked = n, total_price = 10 * of_int n, b_status = st\<rparr>"

definition demo_db :: "trip_status \<Rightarrow> TripBooking list \<Rightarrow> db" where
  "demo_db st bs =
     \<lparr>vehicles = [\<lparr>capacity = 4, v_average_rating = 0\<rparr>],
      drivers = [\<lparr>d_user = 3, d_average_rating = 0, total_trips = 0, d_status = ON_TRIP\<rparr>],
      trips = [demo_trip st], bookings = bs, ratings = [], admin_logs = []\<rparr>"

section \<open>Booking a trip\<close>



section \<open>Rejected bookings\<close>

text \<open>
  C2. For an authenticated user posting a seat count on an existing trip, the booking is
  rejected exactly when the user is not a passenger, or the trip is not bookable (not Upcoming,
  no seat left, or departure not after the time of the call), or the user already holds a
  Confirmed booking for the trip, or the count exceeds \<open>available_seats\<close>, or the count is
  below 1; and a rejected call leaves the whole store, so the trip's seats and every booking,
  as it was.
\<close>

theorem book_rejected_iff:
  assumes "get_object (trips s) trip_id = Some trip"
  shows "(\<not> booked (fst (trip_book_view s now (Some u) (POST (Some seats)) trip_id)) \<longleftrightarrow>
            \<not> is_passenger u \<or> \<not> is_bookable now trip \<or> has_confirmed s trip_id (uid u)
            \<or> seats > available_seats trip \<or> seats < 1)
         \<and> (\<not> booked (fst (trip_book_view s now (Some u) (POST (Some seats)) trip_id)) \<longrightarrow>
            snd (trip_book_view s now (Some u) (POST (Some seats)) trip_id) = s)"
  using assms by (auto simp: trip_book_view_def BookingForm_clean_def booked_def)

theorem book_rejected_iff_witness:
  "get_object (trips (demo_db UPCOMING [])) 0 = Some (demo_trip UPCOMING)
   \<and> \<not> booked (fst (trip_book_view (demo_db UPCOMING []) 0 (Some bob) (POST (Some 5)) 0))
   \<and> snd (trip_book_view (demo_db UPCOMING []) 0 (Some bob) (POST (Some 5)) 0) = demo_db UPCOMING []"
proof -
  have b: "get_object (trips (demo_db UPCOMING [])) 0 = Some (demo_trip UPCOMING)"
    by (simp add: get_object_def demo_db_def)
  have e: "available_seats (demo_trip UPCOMING) = 3" by (simp add: demo_trip_def)
  from book_rejected_iff [OF b, of 0 bob 5] b e show ?thesis by simp
qed

text \<open>
  The four conditions alone do not characterise rejection: a driver posting one seat on a
  bookable trip with three seats left, on which the driver holds no booking, is turned away by
  the role check.
\<close>

theorem book_rejected_for_driver:
  "\<not> booked (fst (trip_book_view (demo_db UPCOMING []) 0 (Some dave) (POST (Some 1)) 0))
   \<and> is_bookable 0 (demo_trip UPCOMING)
   \<and> get_object (trips (demo_db UPCOMING [])) 0 = Some (demo_trip UPCOMING)
   \<and> \<not> has_confirmed (demo_db UPCOMING []) 0 (uid dave)
   \<and> \<not> 1 > available_seats (demo_trip UPCOMING) \<and> \<not> (1::int) < 1"
  by (simp add: trip_book_view_def booked_def dave_def is_passenger_def is_bookable_def
      has_confirmed_def get_object_def demo_db_def demo_trip_def)

section \<open>Cancelling a booking\<close>




text \<open>
  At the top of the seat column the owner's request is rejected as well, with a 500, after
  the booking has been saved as Cancelled; the trip keeps its seat count.
\<close>

lemma cancel_booking_at_column_bound:
  "cancel_booking_view
     ((demo_db UPCOMING [demo_booking 1 2 B_CONFIRMED])
        \<lparr>trips := [(demo_trip UPCOMING)\<lparr>available_seats := 2 ^ 63 - 1\<rparr>]\<rparr>)
     (Some alice) (POST ()) 0
   = (ServerError,
      (demo_db UPCOMING [demo_booking 1 2 B_CANCELLED])
        \<lparr>trips := [(demo_trip UPCOMING)\<lparr>available_seats := 2 ^ 63 - 1\<rparr>]\<rparr>)"
  by (simp add: cancel_booking_view_def alice_def is_passenger_def get_object_def
      decimal_10_2_def in_int64_def demo_db_def demo_trip_def demo_booking_def)

section \<open>Booking followed by cancellation\<close>

lemma trip_book_view_booked:
  assumes "booked (fst (trip_book_view s now ru m trip_id))"
  obtains u trip seats where
    "ru = Some u" "is_passenger u" "get_object (trips s) trip_id = Some trip"
    "is_bookable now trip" "\<not> has_confirmed s trip_id (uid u)"
    "m = POST (Some seats)" "1 \<le> seats" "seats \<le> available_seats trip"
    "snd (trip_book_view s now ru m trip_id) =
       s\<lparr>bookings := bookings s @
            [\<lparr>b_trip = trip_id, b_user = uid u, seats_booked = seats,
              total_price = price trip * of_int seats, b_status = B_CONFIRMED\<rparr>],
         trips := (trips s)[trip_id :=
            trip\<lparr>available_seats := available_seats trip - seats\<rparr>]\<rparr>"
  using assms
  by (auto simp: trip_book_view_def booked_def BookingForm_clean_def
      split: option.splits if_splits http_method.splits)

lemma trip_book_view_not_booked:
  "\<not> booked (fst (trip_book_view s now ru m trip_id)) \<Longrightarrow>
     snd (trip_book_view s now ru m trip_id) = s"
  by (auto simp: trip_book_view_def booked_def BookingForm_clean_def
      split: option.splits if_splits http_method.splits)




section \<open>Trip lifecycle\<close>

lemma first_index_Some:
  "first_index P xs = Some i \<Longrightarrow> i < length xs \<and> P (xs ! i)"
proof (induction xs arbitrary: i)
  case Nil
  then show ?case by simp
next
  case (Cons x xs)
  show ?case
  proof (cases "P x")
    case True
    with Cons.prems show ?thesis by simp
  next
    case False
    with Cons.prems obtain j where j: "first_index P xs = Some j" and i: "i = Suc j"
      by auto
    from Cons.IH [OF j] i show ?thesis by simp
  qed
qed

text \<open>
  C5. A request completes a trip only if it is a POST by a driver whose own driver row is the
  trip's assigned driver and the trip is Ongoing. Then the trip becomes Completed, exactly the
  Confirmed bookings of that trip become Completed (every other booking is untouched), and
  the driver's row gets status Available and \<open>total_trips\<close> one higher.
\<close>

theorem complete_trip_effect:
  assumes "driver_done (fst (driver_complete_trip_view s ru m trip_id))"
  shows "\<exists>u d trip.
           ru = Some u \<and> is_driver u \<and> m = POST () \<and> driver_profile s u = Some d
           \<and> d < length (drivers s) \<and> d_user (drivers s ! d) = uid u
           \<and> get_object (trips s) trip_id = Some trip
           \<and> t_driver trip = Some d \<and> t_status trip = ONGOING
           \<and> trips (snd (driver_complete_trip_view s ru m trip_id)) =
               (trips s)[trip_id := trip\<lparr>t_status := COMPLETED\<rparr>]
           \<and> bookings (snd (driver_complete_trip_view s ru m trip_id)) =
               map (\<lambda>b. if b_trip b = trip_id \<and> b_status b = B_CONFIRMED
                        then b\<lparr>b_status := B_COMPLETED\<rparr> else b) (bookings s)
           \<and> drivers (snd (driver_complete_trip_view s ru m trip_id)) =
               (drivers s)[d := (drivers s ! d)\<lparr>d_status := AVAILABLE,
                  total_trips := total_trips (drivers s ! d) + 1\<rparr>]"
proof -
  from assms obtain u where ru: "ru = Some u" and du: "is_driver u"
    by (auto simp: driver_complete_trip_view_def driver_done_def split: option.splits if_splits)
  from assms ru du obtain d where d: "driver_profile s u = Some d"
    by (auto simp: driver_complete_trip_view_def driver_done_def split: option.splits)
  from first_index_Some [of "\<lambda>r. d_user r = uid u" "drivers s" d] d
  have dl: "d < length (drivers s)" "d_user (drivers s ! d) = uid u"
    by (simp_all add: driver_profile_def)
  from assms ru du d obtain trip where t: "get_object (trips s) trip_id = Some trip"
    by (auto simp: driver_complete_trip_view_def driver_done_def split: option.splits)
  from assms ru du d t have g: "t_driver trip = Some d" "t_status trip = ONGOING" "m = POST ()"
    by (auto simp: driver_complete_trip_view_def driver_done_def
        split: if_splits http_method.splits)
  from assms ru du d t g have i: "in_int64 (total_trips (drivers s ! d) + 1)"
    by (auto simp: driver_complete_trip_view_def driver_done_def split: if_splits)
  from ru du d t g dl i show ?thesis
    by (simp add: driver_complete_trip_view_def)
qed

theorem complete_trip_effect_witness:
  "driver_done (fst (driver_complete_trip_view
      (demo_db ONGOING [demo_booking 1 2 B_CONFIRMED, demo_booking 2 1 B_CANCELLED])
      (Some dave) (POST ()) 0))
   \<and> snd (driver_complete_trip_view
      (demo_db ONGOING [demo_booking 1 2 B_CONFIRMED, demo_booking 2 1 B_CANCELLED])
      (Some dave) (POST ()) 0) =
     (demo_db COMPLETED [demo_booking 1 2 B_COMPLETED, demo_booking 2 1 B_CANCELLED])
       \<lparr>drivers := [\<lparr>d_user = 3, d_average_rating = 0, total_trips = 1, d_status = AVAILABLE\<rparr>]\<rparr>"
proof -
  let ?s = "demo_db ONGOING [demo_booking 1 2 B_CONFIRMED, demo_booking 2 1 B_CANCELLED]"
  have a: "driver_done (fst (driver_complete_trip_view ?s (Some dave) (POST ()) 0))"
    by (simp add: driver_complete_trip_view_def driver_done_def demo_db_def demo_trip_def
        dave_def is_driver_def driver_profile_def get_object_def in_int64_def)
  from complete_trip_effect [OF a] a show ?thesis
    by (simp add: driver_complete_trip_view_def driver_done_def demo_db_def demo_trip_def
        demo_booking_def dave_def is_driver_def driver_profile_def get_object_def in_int64_def)
qed

section \<open>Cancelling a trip\<close>

lemma trip_cancel_view_already:
  assumes "get_object (trips s) trip_id = Some trip" and "t_status trip = CANCELLED"
  shows "\<not> trip_cancelled (fst (trip_cancel_view s ru m trip_id))
         \<and> snd (trip_cancel_view s ru m trip_id) = s"
proof (cases ru)
  case None
  then show ?thesis by (simp add: trip_cancel_view_def trip_cancelled_def)
next
  case (Some u)
  with assms show ?thesis by (simp add: trip_cancel_view_def trip_cancelled_def)
qed

lemma trip_cancel_view_done:
  assumes "trip_cancelled (fst (trip_cancel_view s ru m trip_id))"
  obtains u trip raw reason where
    "ru = Some u" "is_admin u" "m = POST raw"
    "CancelTripForm_clean raw = Some reason" "reason \<noteq> []"
    "get_object (trips s) trip_id = Some trip" "t_status trip \<noteq> CANCELLED"
    "snd (trip_cancel_view s ru m trip_id) =
       log_admin_action
         (s\<lparr>trips := (trips s)[trip_id := trip\<lparr>t_status := CANCELLED,
               cancelled_by := Some ''Administrator'', cancellation_reason := Some reason\<rparr>],
            bookings := map (\<lambda>b. if b_trip b = trip_id then b\<lparr>b_status := B_CANCELLED\<rparr> else b)
                            (bookings s)\<rparr>)
         u ''CANCEL'' ''Trip'' trip_id (''Cancelled trip: '' @ trip_name trip)"
proof -
  from assms obtain u where ru: "ru = Some u" and au: "is_admin u"
    by (auto simp: trip_cancel_view_def trip_cancelled_def split: option.splits if_splits)
  from assms ru au obtain trip where t: "get_object (trips s) trip_id = Some trip"
    by (auto simp: trip_cancel_view_def trip_cancelled_def split: option.splits)
  from assms ru au t have st: "t_status trip \<noteq> CANCELLED"
    by (auto simp: trip_cancel_view_def trip_cancelled_def split: if_splits)
  from assms ru au t st obtain raw where m: "m = POST raw"
    by (cases m) (auto simp: trip_cancel_view_def trip_cancelled_def)
  from assms ru au t st m obtain reason where r: "CancelTripForm_clean raw = Some reason"
    by (auto simp: trip_cancel_view_def trip_cancelled_def split: option.splits)
  from r have ne: "reason \<noteq> []"
    by (auto simp: CancelTripForm_clean_def Let_def split: if_splits)
  from ru au t st m r have
    "snd (trip_cancel_view s ru m trip_id) =
       log_admin_action
         (s\<lparr>trips := (trips s)[trip_id := trip\<lparr>t_status := CANCELLED,
               cancelled_by := Some ''Administrator'', cancellation_reason := Some reason\<rparr>],
            bookings := map (\<lambda>b. if b_trip b = trip_id then b\<lparr>b_status := B_CANCELLED\<rparr> else b)
                            (bookings s)\<rparr>)
         u ''CANCEL'' ''Trip'' trip_id (''Cancelled trip: '' @ trip_name trip)"
    by (simp add: trip_cancel_view_def)
  with ru au m r ne t st show thesis by (rule that)
qed

lemma trip_cancel_view_writes:
  assumes "trip_cancelled (fst (trip_cancel_view s ru m trip_id))"
  shows "\<exists>u trip raw reason.
          ru = Some u \<and> is_admin u \<and> m = POST raw
          \<and> CancelTripForm_clean raw = Some reason \<and> reason \<noteq> []
          \<and> get_object (trips s) trip_id = Some trip \<and> t_status trip \<noteq> CANCELLED
          \<and> trips (snd (trip_cancel_view s ru m trip_id)) =
              (trips s)[trip_id := trip\<lparr>t_status := CANCELLED,
                 cancelled_by := Some ''Administrator'', cancellation_reason := Some reason\<rparr>]
          \<and> bookings (snd (trip_cancel_view s ru m trip_id)) =
              map (\<lambda>b. if b_trip b = trip_id then b\<lparr>b_status := B_CANCELLED\<rparr> else b)
                  (bookings s)"
proof -
  from assms obtain u trip raw reason where
    f: "ru = Some u" "is_admin u" "m = POST raw"
    "CancelTripForm_clean raw = Some reason" "reason \<noteq> []"
    "get_object (trips s) trip_id = Some trip" "t_status trip \<noteq> CANCELLED"
    and s': "snd (trip_cancel_view s ru m trip_id) =
       log_admin_action
         (s\<lparr>trips := (trips s)[trip_id := trip\<lparr>t_status := CANCELLED,
               cancelled_by := Some ''Administrator'', cancellation_reason := Some reason\<rparr>],
            bookings := map (\<lambda>b. if b_trip b = trip_id then b\<lparr>b_status := B_CANCELLED\<rparr> else b)
                            (bookings s)\<rparr>)
         u ''CANCEL'' ''Trip'' trip_id (''Cancelled trip: '' @ trip_name trip)"
    by (rule trip_cancel_view_done)
  have t: "trips (snd (trip_cancel_view s ru m trip_id)) =
              (trips s)[trip_id := trip\<lparr>t_status := CANCELLED,
                 cancelled_by := Some ''Administrator'', cancellation_reason := Some reason\<rparr>]"
    by (simp add: s' log_admin_action_def)
  have b: "bookings (snd (trip_cancel_view s ru m trip_id)) =
              map (\<lambda>b. if b_trip b = trip_id then b\<lparr>b_status := B_CANCELLED\<rparr> else b)
                  (bookings s)"
    by (simp add: s' log_admin_action_def)
  from f have g: "ru = Some u \<and> is_admin u \<and> m = POST raw
          \<and> CancelTripForm_clean raw = Some reason \<and> reason \<noteq> []
          \<and> get_object (trips s) trip_id = Some trip \<and> t_status trip \<noteq> CANCELLED"
    by simp
  from g t b show ?thesis by blast
qed

lemma trip_cancel_view_not_done:
  assumes "\<not> trip_cancelled (fst (trip_cancel_view s ru m trip_id))"
  shows "snd (trip_cancel_view s ru m trip_id) = s"
  using assms
  by (auto simp: trip_cancel_view_def trip_cancelled_def
      split: option.splits if_splits http_method.splits)

lemma cascade_cancels:
  "\<forall>b \<in> set (map (\<lambda>b. if b_trip b = trip_id then b\<lparr>b_status := B_CANCELLED\<rparr> else b) bs).
     b_trip b = trip_id \<longrightarrow> b_status b = B_CANCELLED"
proof (rule ballI, rule impI)
  fix b
  assume "b \<in> set (map (\<lambda>b. if b_trip b = trip_id then b\<lparr>b_status := B_CANCELLED\<rparr> else b) bs)"
    and t: "b_trip b = trip_id"
  then have "b \<in> (\<lambda>b. if b_trip b = trip_id then b\<lparr>b_status := B_CANCELLED\<rparr> else b) ` set bs"
    by (simp only: set_map)
  then obtain x where b: "b = (if b_trip x = trip_id then x\<lparr>b_status := B_CANCELLED\<rparr> else x)"
    by (rule imageE)
  show "b_status b = B_CANCELLED"
  proof (cases "b_trip x = trip_id")
    case True
    with b show ?thesis by simp
  next
    case False
    with b have "b = x" by simp
    with t False show ?thesis by simp
  qed
qed

text \<open>
  C6. A cancellation request on a trip that is already Cancelled is rejected and changes
  nothing. A request cancels the trip only if it is a POST by an administrator carrying a
  reason that is not empty once stripped, on an existing trip that is not Cancelled; then the
  trip's row gets status Cancelled, \<open>cancelled_by = 'Administrator'\<close> and the cleaned reason,
  and every booking of that trip, whatever its status was, has status Cancelled afterwards,
  the bookings of other trips being untouched.
\<close>

theorem trip_cancel_effect:
  "(\<forall>trip. get_object (trips s) trip_id = Some trip \<and> t_status trip = CANCELLED \<longrightarrow>
       \<not> trip_cancelled (fst (trip_cancel_view s ru m trip_id))
       \<and> snd (trip_cancel_view s ru m trip_id) = s)
   \<and> (trip_cancelled (fst (trip_cancel_view s ru m trip_id)) \<longrightarrow>
        (\<exists>u trip raw reason.
          ru = Some u \<and> is_admin u \<and> m = POST raw
          \<and> CancelTripForm_clean raw = Some reason \<and> reason \<noteq> []
          \<and> get_object (trips s) trip_id = Some trip \<and> t_status trip \<noteq> CANCELLED
          \<and> trips (snd (trip_cancel_view s ru m trip_id)) =
              (trips s)[trip_id := trip\<lparr>t_status := CANCELLED,
                 cancelled_by := Some ''Administrator'', cancellation_reason := Some reason\<rparr>]
          \<and> bookings (snd (trip_cancel_view s ru m trip_id)) =
              map (\<lambda>b. if b_trip b = trip_id then b\<lparr>b_status := B_CANCELLED\<rparr> else b)
                  (bookings s))
        \<and> (\<forall>b \<in> set (bookings (snd (trip_cancel_view s ru m trip_id))).
              b_trip b = trip_id \<longrightarrow> b_status b = B_CANCELLED))"
proof (rule conjI)
  show "\<forall>trip. get_object (trips s) trip_id = Some trip \<and> t_status trip = CANCELLED \<longrightarrow>
       \<not> trip_cancelled (fst (trip_cancel_view s ru m trip_id))
       \<and> snd (trip_cancel_view s ru m trip_id) = s"
  proof (rule allI, rule impI)
    fix trip
    assume "get_object (trips s) trip_id = Some trip \<and> t_status trip = CANCELLED"
    then have "get_object (trips s) trip_id = Some trip" and "t_status trip = CANCELLED"
      by simp_all
    then show "\<not> trip_cancelled (fst (trip_cancel_view s ru m trip_id))
       \<and> snd (trip_cancel_view s ru m trip_id) = s"
      by (rule trip_cancel_view_already)
  qed
next
  show "trip_cancelled (fst (trip_cancel_view s ru m trip_id)) \<longrightarrow>
        (\<exists>u trip raw reason.
          ru = Some u \<and> is_admin u \<and> m = POST raw
          \<and> CancelTripForm_clean raw = Some reason \<and> reason \<noteq> []
          \<and> get_object (trips s) trip_id = Some trip \<and> t_status trip \<noteq> CANCELLED
          \<and> trips (snd (trip_cancel_view s ru m trip_id)) =
              (trips s)[trip_id := trip\<lparr>t_status := CANCELLED,
                 cancelled_by := Some ''Administrator'', cancellation_reason := Some reason\<rparr>]
          \<and> bookings (snd (trip_cancel_view s ru m trip_id)) =
              map (\<lambda>b. if b_trip b = trip_id then b\<lparr>b_status := B_CANCELLED\<rparr> else b)
                  (bookings s))
        \<and> (\<forall>b \<in> set (bookings (snd (trip_cancel_view s ru m trip_id))).
              b_trip b = trip_id \<longrightarrow> b_status b = B_CANCELLED)"
  proof (rule impI, rule conjI)
    assume a: "trip_cancelled (fst (trip_cancel_view s ru m trip_id))"
    then show "\<exists>u trip raw reason.
          ru = Some u \<and> is_admin u \<and> m = POST raw
          \<and> CancelTripForm_clean raw = Some reason \<and> reason \<noteq> []
          \<and> get_object (trips s) trip_id = Some trip \<and> t_status trip \<noteq> CANCELLED
          \<and> trips (snd (trip_cancel_view s ru m trip_id)) =
              (trips s)[trip_id := trip\<lparr>t_status := CANCELLED,
                 cancelled_by := Some ''Administrator'', cancellation_reason := Some reason\<rparr>]
          \<and> bookings (snd (trip_cancel_view s ru m trip_id)) =
              map (\<lambda>b. if b_trip b = trip_id then b\<lparr>b_status := B_CANCELLED\<rparr> else b)
                  (bookings s)"
      by (rule trip_cancel_view_writes)
  next
    assume a: "trip_cancelled (fst (trip_cancel_view s ru m trip_id))"
    from trip_cancel_view_writes [OF a]
    have b: "bookings (snd (trip_cancel_view s ru m trip_id)) =
              map (\<lambda>b. if b_trip b = trip_id then b\<lparr>b_status := B_CANCELLED\<rparr> else b)
                  (bookings s)"
      by (elim exE conjE)
    show "\<forall>b \<in> set (bookings (snd (trip_cancel_view s ru m trip_id))).
              b_trip b = trip_id \<longrightarrow> b_status b = B_CANCELLED"
      unfolding b by (rule cascade_cancels)
  qed
qed

theorem trip_cancel_effect_witness:
  "trip_cancelled (fst (trip_cancel_view
      (demo_db UPCOMING [demo_booking 1 2 B_CONFIRMED, demo_booking 2 1 B_CANCELLED,
                         demo_booking 4 1 B_COMPLETED])
      (Some root) (POST '' engine failure  '') 0))
   \<and> map b_status (bookings (snd (trip_cancel_view
      (demo_db UPCOMING [demo_booking 1 2 B_CONFIRMED, demo_booking 2 1 B_CANCELLED,
                         demo_booking 4 1 B_COMPLETED])
      (Some root) (POST '' engine failure  '') 0))) = [B_CANCELLED, B_CANCELLED, B_CANCELLED]"
proof -
  let ?s = "demo_db UPCOMING [demo_booking 1 2 B_CONFIRMED, demo_booking 2 1 B_CANCELLED,
                         demo_booking 4 1 B_COMPLETED]"
  let ?r = "trip_cancel_view ?s (Some root) (POST '' engine failure  '') 0"
  have c: "CancelTripForm_clean '' engine failure  '' = Some ''engine failure''"
    by (simp add: CancelTripForm_clean_def strip_def isspace_def)
  have a: "trip_cancelled (fst ?r)"
    by (simp add: trip_cancel_view_def trip_cancelled_def c root_def is_admin_def get_object_def
        demo_db_def demo_trip_def)
  have "trip_cancelled (fst ?r) \<longrightarrow>
        (\<exists>u trip raw reason.
          Some root = Some u \<and> is_admin u \<and> POST '' engine failure  '' = POST raw
          \<and> CancelTripForm_clean raw = Some reason \<and> reason \<noteq> []
          \<and> get_object (trips ?s) 0 = Some trip \<and> t_status trip \<noteq> CANCELLED
          \<and> trips (snd ?r) =
              (trips ?s)[0 := trip\<lparr>t_status := CANCELLED,
                 cancelled_by := Some ''Administrator'', cancellation_reason := Some reason\<rparr>]
          \<and> bookings (snd ?r) =
              map (\<lambda>b. if b_trip b = 0 then b\<lparr>b_status := B_CANCELLED\<rparr> else b)
                  (bookings ?s))
        \<and> (\<forall>b \<in> set (bookings (snd ?r)). b_trip b = 0 \<longrightarrow> b_status b = B_CANCELLED)"
    by (rule trip_cancel_effect [THEN conjunct2])
  from this a have "\<exists>u trip raw reason.
          Some root = Some u \<and> is_admin u \<and> POST '' engine failure  '' = POST raw
          \<and> CancelTripForm_clean raw = Some reason \<and> reason \<noteq> []
          \<and> get_object (trips ?s) 0 = Some trip \<and> t_status trip \<noteq> CANCELLED
          \<and> trips (snd ?r) =
              (trips ?s)[0 := trip\<lparr>t_status := CANCELLED,
                 cancelled_by := Some ''Administrator'', cancellation_reason := Some reason\<rparr>]
          \<and> bookings (snd ?r) =
              map (\<lambda>b. if b_trip b = 0 then b\<lparr>b_status := B_CANCELLED\<rparr> else b)
                  (bookings ?s)"
    by (rule mp [THEN conjunct1])
  then have b: "bookings (snd ?r) =
              map (\<lambda>b. if b_trip b = 0 then b\<lparr>b_status := B_CANCELLED\<rparr> else b)
                  (bookings ?s)"
    by (elim exE conjE)
  have "map b_status (map (\<lambda>b. if b_trip b = 0 then b\<lparr>b_status := B_CANCELLED\<rparr> else b)
                  (bookings ?s)) = [B_CANCELLED, B_CANCELLED, B_CANCELLED]"
    by (simp add: demo_db_def demo_booking_def)
  then have "map b_status (bookings (snd ?r)) = [B_CANCELLED, B_CANCELLED, B_CANCELLED]"
    by (simp only: b)
  with a show ?thesis by (rule conjI)
qed

text \<open>
  C10. Whatever the request and its outcome, the administrator's cancellation leaves the
  \<open>available_seats\<close> of every trip as it was: the bookings it cascades to Cancelled give
  no seat back to the trip, whereas a passenger's own cancellation raises \<open>available_seats\<close>
  by the seats of the booking.
\<close>

theorem trip_cancel_keeps_available_seats:
  "map available_seats (trips (snd (trip_cancel_view s ru m trip_id))) =
     map available_seats (trips s)"
proof (cases "trip_cancelled (fst (trip_cancel_view s ru m trip_id))")
  case False
  then have "snd (trip_cancel_view s ru m trip_id) = s" by (rule trip_cancel_view_not_done)
  then show ?thesis by simp
next
  case True
  from trip_cancel_view_writes [OF True] obtain trip reason where
    g: "get_object (trips s) trip_id = Some trip"
    and t: "trips (snd (trip_cancel_view s ru m trip_id)) =
              (trips s)[trip_id := trip\<lparr>t_status := CANCELLED,
                 cancelled_by := Some ''Administrator'', cancellation_reason := Some reason\<rparr>]"
    by (elim exE conjE)
  from g have lt: "trip_id < length (trips s)" and tv: "trips s ! trip_id = trip"
    by (auto simp: get_object_def split: if_splits)
  have "map available_seats ((trips s)[trip_id := trip\<lparr>t_status := CANCELLED,
                 cancelled_by := Some ''Administrator'', cancellation_reason := Some reason\<rparr>])
        = (map available_seats (trips s))[trip_id := available_seats trip]"
    by (simp add: map_update)
  also from lt tv have "\<dots> = map available_seats (trips s)"
    by (simp add: list_update_same_conv)
  finally show ?thesis unfolding t .
qed

theorem trip_cancel_keeps_available_seats_witness:
  "seats_now (snd (trip_cancel_view
      (demo_db UPCOMING [demo_booking 1 2 B_CONFIRMED]) (Some root) (POST ''weather'') 0)) 0 = 3
   \<and> seats_in B_CANCELLED (snd (trip_cancel_view
      (demo_db UPCOMING [demo_booking 1 2 B_CONFIRMED]) (Some root) (POST ''weather'') 0)) 0 = 2
   \<and> seats_now (snd (cancel_booking_view
      (demo_db UPCOMING [demo_booking 1 2 B_CONFIRMED]) (Some alice) (POST ()) 0)) 0 = 5"
proof -
  let ?s = "demo_db UPCOMING [demo_booking 1 2 B_CONFIRMED]"
  have c: "CancelTripForm_clean ''weather'' = Some ''weather''"
    by (simp add: CancelTripForm_clean_def strip_def isspace_def)
  have l: "length (trips (snd (trip_cancel_view ?s (Some root) (POST ''weather'') 0))) = 1"
    by (simp add: trip_cancel_view_def c root_def is_admin_def get_object_def
        demo_db_def demo_trip_def log_admin_action_def)
  from trip_cancel_keeps_available_seats [of ?s "Some root" "POST ''weather''" 0]
  have "map available_seats (trips (snd (trip_cancel_view ?s (Some root) (POST ''weather'') 0)))
          ! 0 = 3"
    by (simp add: demo_db_def demo_trip_def)
  with l have x: "seats_now (snd (trip_cancel_view ?s (Some root) (POST ''weather'') 0)) 0 = 3"
    by (simp add: seats_now_def)
  have y: "seats_in B_CANCELLED (snd (trip_cancel_view ?s (Some root) (POST ''weather'') 0)) 0 = 2"
    by (simp add: trip_cancel_view_def c root_def is_admin_def get_object_def seats_in_def
        demo_db_def demo_trip_def demo_booking_def log_admin_action_def)
  have z: "seats_now (snd (cancel_booking_view ?s (Some alice) (POST ()) 0)) 0 = 5"
    by (simp add: cancel_booking_view_def alice_def is_passenger_def get_object_def seats_now_def
        decimal_10_2_def in_int64_def demo_db_def demo_trip_def demo_booking_def)
  from x y z show ?thesis by (intro conjI)
qed

section \<open>Terminal trip states\<close>

lemma driver_start_trip_view_trips:
  "trips (snd (driver_start_trip_view s ru m t)) = trips s
   \<or> (\<exists>trip. get_object (trips s) t = Some trip \<and> t_status trip = UPCOMING
         \<and> trips (snd (driver_start_trip_view s ru m t)) =
             (trips s)[t := trip\<lparr>t_status := ONGOING\<rparr>])"
  by (simp add: driver_start_trip_view_def split: option.split http_method.split)

lemma driver_complete_trip_view_trips:
  "trips (snd (driver_complete_trip_view s ru m t)) = trips s
   \<or> (\<exists>trip. get_object (trips s) t = Some trip \<and> t_status trip = ONGOING
         \<and> trips (snd (driver_complete_trip_view s ru m t)) =
             (trips s)[t := trip\<lparr>t_status := COMPLETED\<rparr>])"
  by (simp add: driver_complete_trip_view_def split: option.split http_method.split)

lemma trip_cancel_view_trips:
  "(\<not> trip_cancelled (fst (trip_cancel_view s ru m t))
      \<and> trips (snd (trip_cancel_view s ru m t)) = trips s)
   \<or> (trip_cancelled (fst (trip_cancel_view s ru m t))
       \<and> (\<exists>trip reason. get_object (trips s) t = Some trip \<and> t_status trip \<noteq> CANCELLED
         \<and> trips (snd (trip_cancel_view s ru m t)) =
             (trips s)[t := trip\<lparr>t_status := CANCELLED,
                 cancelled_by := Some ''Administrator'', cancellation_reason := Some reason\<rparr>]))"
proof (cases "trip_cancelled (fst (trip_cancel_view s ru m t))")
  case False
  then have "snd (trip_cancel_view s ru m t) = s" by (rule trip_cancel_view_not_done)
  with False show ?thesis by simp
next
  case True
  from trip_cancel_view_writes [OF True] obtain trip reason where
    g: "get_object (trips s) t = Some trip" and n: "t_status trip \<noteq> CANCELLED"
    and w: "trips (snd (trip_cancel_view s ru m t)) =
              (trips s)[t := trip\<lparr>t_status := CANCELLED,
                 cancelled_by := Some ''Administrator'', cancellation_reason := Some reason\<rparr>]"
    by (elim exE conjE)
  from g n w have "\<exists>trip reason. get_object (trips s) t = Some trip \<and> t_status trip \<noteq> CANCELLED
         \<and> trips (snd (trip_cancel_view s ru m t)) =
             (trips s)[t := trip\<lparr>t_status := CANCELLED,
                 cancelled_by := Some ''Administrator'', cancellation_reason := Some reason\<rparr>]"
    by (intro exI conjI)
  with True show ?thesis by simp
qed

lemma get_object_nth:
  "get_object xs i = Some x \<Longrightarrow> i < length xs \<and> xs ! i = x"
  by (simp add: get_object_def split: if_splits)

lemma start_keeps_status:
  assumes "status_now s i \<noteq> UPCOMING"
  shows "status_now (snd (driver_start_trip_view s ru m t)) i = status_now s i"
proof -
  from driver_start_trip_view_trips [of s ru m t] show ?thesis
  proof (elim disjE exE conjE)
    assume "trips (snd (driver_start_trip_view s ru m t)) = trips s"
    then show ?thesis by (simp add: status_now_def)
  next
    fix trip
    assume g: "get_object (trips s) t = Some trip" and u: "t_status trip = UPCOMING"
      and w: "trips (snd (driver_start_trip_view s ru m t)) =
             (trips s)[t := trip\<lparr>t_status := ONGOING\<rparr>]"
    from get_object_nth [OF g] u assms have "t \<noteq> i" by (auto simp: status_now_def)
    with w show ?thesis by (simp add: status_now_def)
  qed
qed

lemma complete_keeps_status:
  assumes "status_now s i \<noteq> ONGOING"
  shows "status_now (snd (driver_complete_trip_view s ru m t)) i = status_now s i"
proof -
  from driver_complete_trip_view_trips [of s ru m t] show ?thesis
  proof (elim disjE exE conjE)
    assume "trips (snd (driver_complete_trip_view s ru m t)) = trips s"
    then show ?thesis by (simp add: status_now_def)
  next
    fix trip
    assume g: "get_object (trips s) t = Some trip" and u: "t_status trip = ONGOING"
      and w: "trips (snd (driver_complete_trip_view s ru m t)) =
             (trips s)[t := trip\<lparr>t_status := COMPLETED\<rparr>]"
    from get_object_nth [OF g] u assms have "t \<noteq> i" by (auto simp: status_now_def)
    with w show ?thesis by (simp add: status_now_def)
  qed
qed

lemma cancel_status:
  "status_now (snd (trip_cancel_view s ru m t)) i =
     (if trip_cancelled (fst (trip_cancel_view s ru m t)) \<and> t = i
      then CANCELLED else status_now s i)"
proof -
  from trip_cancel_view_trips [of s ru m t] show ?thesis
  proof (elim disjE exE conjE)
    assume "\<not> trip_cancelled (fst (trip_cancel_view s ru m t))"
      and "trips (snd (trip_cancel_view s ru m t)) = trips s"
    then show ?thesis by (simp add: status_now_def)
  next
    fix trip reason
    assume c: "trip_cancelled (fst (trip_cancel_view s ru m t))"
      and g: "get_object (trips s) t = Some trip"
      and w: "trips (snd (trip_cancel_view s ru m t)) =
             (trips s)[t := trip\<lparr>t_status := CANCELLED,
                 cancelled_by := Some ''Administrator'', cancellation_reason := Some reason\<rparr>]"
    from get_object_nth [OF g] have lt: "t < length (trips s)" by simp
    show ?thesis
    proof (cases "t = i")
      case True
      with c w lt show ?thesis by (simp add: status_now_def)
    next
      case False
      with c w show ?thesis by (simp add: status_now_def)
    qed
  qed
qed

text \<open>
  C7. Cancelled is terminal: whatever request reaches the administrator's cancellation, the
  driver's start or the driver's completion, for this trip or for another one, a Cancelled
  trip stays Cancelled. Completed is left alone by the driver's start and completion only:
  the administrator's cancellation, whose one status guard is the test for Cancelled, turns a
  Completed trip into a Cancelled one whenever it succeeds on it, and is the only one of the
  three operations that changes a Completed trip.
\<close>

theorem terminal_trip_status:
  "(status_now s i = CANCELLED \<longrightarrow>
      status_now (snd (trip_cancel_view s ru m t)) i = CANCELLED
      \<and> status_now (snd (driver_start_trip_view s ru' m' t)) i = CANCELLED
      \<and> status_now (snd (driver_complete_trip_view s ru' m' t)) i = CANCELLED)
   \<and> (status_now s i = COMPLETED \<longrightarrow>
      status_now (snd (driver_start_trip_view s ru' m' t)) i = COMPLETED
      \<and> status_now (snd (driver_complete_trip_view s ru' m' t)) i = COMPLETED
      \<and> status_now (snd (trip_cancel_view s ru m t)) i =
          (if trip_cancelled (fst (trip_cancel_view s ru m t)) \<and> t = i
           then CANCELLED else COMPLETED))"
proof (intro conjI impI)
  assume c: "status_now s i = CANCELLED"
  from c show "status_now (snd (trip_cancel_view s ru m t)) i = CANCELLED"
    by (simp add: cancel_status)
  from c have "status_now s i \<noteq> UPCOMING" by simp
  from start_keeps_status [OF this] c
  show "status_now (snd (driver_start_trip_view s ru' m' t)) i = CANCELLED" by simp
  from c have "status_now s i \<noteq> ONGOING" by simp
  from complete_keeps_status [OF this] c
  show "status_now (snd (driver_complete_trip_view s ru' m' t)) i = CANCELLED" by simp
next
  assume c: "status_now s i = COMPLETED"
  from c have "status_now s i \<noteq> UPCOMING" by simp
  from start_keeps_status [OF this] c
  show "status_now (snd (driver_start_trip_view s ru' m' t)) i = COMPLETED" by simp
  from c have "status_now s i \<noteq> ONGOING" by simp
  from complete_keeps_status [OF this] c
  show "status_now (snd (driver_complete_trip_view s ru' m' t)) i = COMPLETED" by simp
  from c show "status_now (snd (trip_cancel_view s ru m t)) i =
          (if trip_cancelled (fst (trip_cancel_view s ru m t)) \<and> t = i
           then CANCELLED else COMPLETED)"
    by (simp only: cancel_status [of s ru m t i])
qed

theorem terminal_trip_status_witness:
  "status_now (demo_db CANCELLED []) 0 = CANCELLED
   \<and> status_now (snd (trip_cancel_view (demo_db CANCELLED []) (Some root) (POST ''weather'') 0)) 0
       = CANCELLED
   \<and> status_now (snd (driver_start_trip_view (demo_db CANCELLED []) (Some dave) (POST ()) 0)) 0
       = CANCELLED
   \<and> status_now (snd (driver_complete_trip_view (demo_db CANCELLED []) (Some dave) (POST ()) 0)) 0
       = CANCELLED"
proof -
  have a: "status_now (demo_db CANCELLED []) 0 = CANCELLED"
    by (simp add: status_now_def demo_db_def demo_trip_def)
  from terminal_trip_status
         [of "demo_db CANCELLED []" 0 "Some root" "POST ''weather''" 0 "Some dave" "POST ()"]
  have "status_now (demo_db CANCELLED []) 0 = CANCELLED \<longrightarrow>
      status_now (snd (trip_cancel_view (demo_db CANCELLED []) (Some root) (POST ''weather'') 0)) 0
        = CANCELLED
      \<and> status_now (snd (driver_start_trip_view (demo_db CANCELLED []) (Some dave) (POST ()) 0)) 0
        = CANCELLED
      \<and> status_now (snd (driver_complete_trip_view (demo_db CANCELLED []) (Some dave) (POST ()) 0)) 0
        = CANCELLED"
    by (rule conjunct1)
  from this a have "status_now (snd (trip_cancel_view (demo_db CANCELLED []) (Some root) (POST ''weather'') 0)) 0
        = CANCELLED
      \<and> status_now (snd (driver_start_trip_view (demo_db CANCELLED []) (Some dave) (POST ()) 0)) 0
        = CANCELLED
      \<and> status_now (snd (driver_complete_trip_view (demo_db CANCELLED []) (Some dave) (POST ()) 0)) 0
        = CANCELLED"
    by (rule mp)
  with a show ?thesis by (rule conjI)
qed

text \<open>
  Completed is not terminal under the administrator's cancellation: a Completed trip is
  cancelled like any trip that is not yet Cancelled.
\<close>

theorem completed_trip_can_be_cancelled:
  "status_now (demo_db COMPLETED []) 0 = COMPLETED
   \<and> trip_cancelled
       (fst (trip_cancel_view (demo_db COMPLETED []) (Some root) (POST ''weather'') 0))
   \<and> status_now (snd (trip_cancel_view (demo_db COMPLETED []) (Some root) (POST ''weather'') 0)) 0
       = CANCELLED"
proof -
  have c: "CancelTripForm_clean ''weather'' = Some ''weather''"
    by (simp add: CancelTripForm_clean_def strip_def isspace_def)
  have x: "status_now (demo_db COMPLETED []) 0 = COMPLETED"
    by (simp add: status_now_def demo_db_def demo_trip_def)
  have y: "trip_cancelled
       (fst (trip_cancel_view (demo_db COMPLETED []) (Some root) (POST ''weather'') 0))"
    by (simp add: trip_cancel_view_def trip_cancelled_def c root_def is_admin_def get_object_def
        demo_db_def demo_trip_def)
  have z: "status_now (snd (trip_cancel_view (demo_db COMPLETED []) (Some root) (POST ''weather'') 0)) 0
       = CANCELLED"
    by (simp add: trip_cancel_view_def c root_def is_admin_def get_object_def status_now_def
        demo_db_def demo_trip_def log_admin_action_def)
  from x y z show ?thesis by (intro conjI)
qed

section \<open>Seat inventory under sequences of requests\<close>

lemma sum_filter_update:
  fixes f :: "'a \<Rightarrow> int"
  shows "n < length xs \<Longrightarrow>
    sum_list (map f (filter P (xs[n := y]))) =
      sum_list (map f (filter P xs)) - (if P (xs ! n) then f (xs ! n) else 0)
        + (if P y then f y else 0)"
proof (induction xs arbitrary: n)
  case Nil
  then show ?case by simp
next
  case (Cons x xs)
  show ?case
  proof (cases n)
    case 0
    then show ?thesis by simp
  next
    case (Suc k)
    with Cons.prems have "k < length xs" by simp
    from Cons.IH [OF this] Suc show ?thesis by simp
  qed
qed

lemma cancel_booking_view_cases:
  "snd (cancel_booking_view s ru m bid) = s
   \<or> (\<exists>booking trip.
         get_object (bookings s) bid = Some booking \<and> b_status booking = B_CONFIRMED
         \<and> get_object (trips s) (b_trip booking) = Some trip
         \<and> (snd (cancel_booking_view s ru m bid) =
               s\<lparr>bookings := (bookings s)[bid := booking\<lparr>b_status := B_CANCELLED\<rparr>]\<rparr>
            \<or> snd (cancel_booking_view s ru m bid) =
               s\<lparr>bookings := (bookings s)[bid := booking\<lparr>b_status := B_CANCELLED\<rparr>],
                 trips := (trips s)[b_trip booking :=
                    trip\<lparr>available_seats := available_seats trip + seats_booked booking\<rparr>]\<rparr>))"
  by (simp add: cancel_booking_view_def split: option.split http_method.split)

lemma book_keeps_inv:
  assumes inv: "inventory_inv lo hi s i" and lo: "lo \<le> 0"
  shows "inventory_inv lo hi (snd (trip_book_view s now ru m t)) i"
proof (cases "booked (fst (trip_book_view s now ru m t))")
  case False
  then have "snd (trip_book_view s now ru m t) = s" by (rule trip_book_view_not_booked)
  with inv show ?thesis by simp
next
  case True
  then obtain u trip seats where ru: "ru = Some u"
    and g: "get_object (trips s) t = Some trip"
    and s1: "1 \<le> seats" and s2: "seats \<le> available_seats trip"
    and e: "snd (trip_book_view s now ru m t) =
       s\<lparr>bookings := bookings s @
            [\<lparr>b_trip = t, b_user = uid u, seats_booked = seats,
              total_price = price trip * of_int seats, b_status = B_CONFIRMED\<rparr>],
         trips := (trips s)[t :=
            trip\<lparr>available_seats := available_seats trip - seats\<rparr>]\<rparr>"
    by (rule trip_book_view_booked)
  from get_object_nth [OF g] have lt: "t < length (trips s)" and tv: "trips s ! t = trip"
    by simp_all
  from inv have i: "i < length (trips s)"
    and pos: "\<forall>b \<in> set (bookings s). b_trip b = i \<longrightarrow> 1 \<le> seats_booked b"
    and lob: "lo \<le> seats_now s i"
    and hib: "seats_now s i + seats_in B_CONFIRMED s i \<le> hi"
    by (simp_all add: inventory_inv_def)
  have L: "i < length (trips (snd (trip_book_view s now ru m t)))"
    using i by (simp add: e)
  have B: "\<forall>b \<in> set (bookings (snd (trip_book_view s now ru m t))).
             b_trip b = i \<longrightarrow> 1 \<le> seats_booked b"
    using pos s1 by (simp add: e)
  have C: "seats_in B_CONFIRMED (snd (trip_book_view s now ru m t)) i =
             seats_in B_CONFIRMED s i + (if t = i then seats else 0)"
    by (simp add: e seats_in_def)
  have N: "seats_now (snd (trip_book_view s now ru m t)) i =
             (if t = i then available_seats trip - seats else seats_now s i)"
    using lt by (simp add: e seats_now_def)
  show ?thesis
  proof (cases "t = i")
    case True
    with tv have "seats_now s i = available_seats trip" by (simp add: seats_now_def)
    with True L B C N s2 lo hib show ?thesis by (simp add: inventory_inv_def)
  next
    case False
    with L B C N lob hib show ?thesis by (simp add: inventory_inv_def)
  qed
qed

lemma cancel_keeps_inv:
  assumes inv: "inventory_inv lo hi s i"
  shows "inventory_inv lo hi (snd (cancel_booking_view s ru m bid)) i"
proof -
  from inv have i: "i < length (trips s)"
    and pos: "\<forall>b \<in> set (bookings s). b_trip b = i \<longrightarrow> 1 \<le> seats_booked b"
    and lob: "lo \<le> seats_now s i"
    and hib: "seats_now s i + seats_in B_CONFIRMED s i \<le> hi"
    by (simp_all add: inventory_inv_def)
  from cancel_booking_view_cases [of s ru m bid] show ?thesis
  proof (elim disjE exE conjE)
    assume "snd (cancel_booking_view s ru m bid) = s"
    with inv show ?thesis by simp
  next
    fix booking trip
    assume g: "get_object (bookings s) bid = Some booking"
      and st: "b_status booking = B_CONFIRMED"
      and e: "snd (cancel_booking_view s ru m bid) =
               s\<lparr>bookings := (bookings s)[bid := booking\<lparr>b_status := B_CANCELLED\<rparr>]\<rparr>"
    from get_object_nth [OF g] have lt: "bid < length (bookings s)"
      and bv: "bookings s ! bid = booking" by simp_all
    from lt bv have mem: "booking \<in> set (bookings s)" by (auto simp: in_set_conv_nth)
    have B: "\<forall>b \<in> set (bookings (snd (cancel_booking_view s ru m bid))).
               b_trip b = i \<longrightarrow> 1 \<le> seats_booked b"
    proof (rule ballI, rule impI)
      fix b
      assume "b \<in> set (bookings (snd (cancel_booking_view s ru m bid)))" and bi: "b_trip b = i"
      then have "b \<in> set ((bookings s)[bid := booking\<lparr>b_status := B_CANCELLED\<rparr>])"
        by (simp add: e)
      with set_update_subset_insert [of "bookings s" bid "booking\<lparr>b_status := B_CANCELLED\<rparr>"]
      have "b = booking\<lparr>b_status := B_CANCELLED\<rparr> \<or> b \<in> set (bookings s)" by blast
      then show "1 \<le> seats_booked b"
      proof
        assume "b = booking\<lparr>b_status := B_CANCELLED\<rparr>"
        with bi pos mem show ?thesis by simp
      next
        assume "b \<in> set (bookings s)"
        with bi pos show ?thesis by simp
      qed
    qed
    have C: "seats_in B_CONFIRMED (snd (cancel_booking_view s ru m bid)) i =
               seats_in B_CONFIRMED s i - (if b_trip booking = i then seats_booked booking else 0)"
      using sum_filter_update [OF lt, of seats_booked
              "\<lambda>b. b_trip b = i \<and> b_status b = B_CONFIRMED" "booking\<lparr>b_status := B_CANCELLED\<rparr>"]
        bv st
      by (simp add: e seats_in_def)
    have P: "b_trip booking = i \<Longrightarrow> 1 \<le> seats_booked booking"
      using pos mem by simp
    have N: "seats_now (snd (cancel_booking_view s ru m bid)) i = seats_now s i"
      by (simp add: e seats_now_def)
    have L: "i < length (trips (snd (cancel_booking_view s ru m bid)))"
      using i by (simp add: e)
    show ?thesis
    proof (cases "b_trip booking = i")
      case True
      with P have "1 \<le> seats_booked booking" by simp
      with True L B C N lob hib show ?thesis by (simp add: inventory_inv_def)
    next
      case False
      with L B C N lob hib show ?thesis by (simp add: inventory_inv_def)
    qed
  next
    fix booking trip
    assume g: "get_object (bookings s) bid = Some booking"
      and st: "b_status booking = B_CONFIRMED"
      and gt: "get_object (trips s) (b_trip booking) = Some trip"
      and e: "snd (cancel_booking_view s ru m bid) =
               s\<lparr>bookings := (bookings s)[bid := booking\<lparr>b_status := B_CANCELLED\<rparr>],
                 trips := (trips s)[b_trip booking :=
                    trip\<lparr>available_seats := available_seats trip + seats_booked booking\<rparr>]\<rparr>"
    from get_object_nth [OF g] have lt: "bid < length (bookings s)"
      and bv: "bookings s ! bid = booking" by simp_all
    from get_object_nth [OF gt] have tl: "b_trip booking < length (trips s)"
      and tv: "trips s ! b_trip booking = trip" by simp_all
    from lt bv have mem: "booking \<in> set (bookings s)" by (auto simp: in_set_conv_nth)
    have B: "\<forall>b \<in> set (bookings (snd (cancel_booking_view s ru m bid))).
               b_trip b = i \<longrightarrow> 1 \<le> seats_booked b"
    proof (rule ballI, rule impI)
      fix b
      assume "b \<in> set (bookings (snd (cancel_booking_view s ru m bid)))" and bi: "b_trip b = i"
      then have "b \<in> set ((bookings s)[bid := booking\<lparr>b_status := B_CANCELLED\<rparr>])"
        by (simp add: e)
      with set_update_subset_insert [of "bookings s" bid "booking\<lparr>b_status := B_CANCELLED\<rparr>"]
      have "b = booking\<lparr>b_status := B_CANCELLED\<rparr> \<or> b \<in> set (bookings s)" by blast
      then show "1 \<le> seats_booked b"
      proof
        assume "b = booking\<lparr>b_status := B_CANCELLED\<rparr>"
        with bi pos mem show ?thesis by simp
      next
        assume "b \<in> set (bookings s)"
        with bi pos show ?thesis by simp
      qed
    qed
    have C: "seats_in B_CONFIRMED (snd (cancel_booking_view s ru m bid)) i =
               seats_in B_CONFIRMED s i - (if b_trip booking = i then seats_booked booking else 0)"
      using sum_filter_update [OF lt, of seats_booked
              "\<lambda>b. b_trip b = i \<and> b_status b = B_CONFIRMED" "booking\<lparr>b_status := B_CANCELLED\<rparr>"]
        bv st
      by (simp add: e seats_in_def)
    have P: "b_trip booking = i \<Longrightarrow> 1 \<le> seats_booked booking"
      using pos mem by simp
    have N: "seats_now (snd (cancel_booking_view s ru m bid)) i =
               (if b_trip booking = i then available_seats trip + seats_booked booking
                else seats_now s i)"
      using tl by (simp add: e seats_now_def)
    have L: "i < length (trips (snd (cancel_booking_view s ru m bid)))"
      using i by (simp add: e)
    show ?thesis
    proof (cases "b_trip booking = i")
      case True
      with P have p: "1 \<le> seats_booked booking" by simp
      from True tv have "seats_now s i = available_seats trip" by (simp add: seats_now_def)
      with True p L B C N lob hib show ?thesis by (simp add: inventory_inv_def)
    next
      case False
      with L B C N lob hib show ?thesis by (simp add: inventory_inv_def)
    qed
  qed
qed

lemma step_keeps_inv:
  assumes "inventory_inv lo hi s i" and "lo \<le> 0"
  shows "inventory_inv lo hi (step s a) i"
proof (cases a)
  case (Book now ru m t)
  with book_keeps_inv [OF assms] show ?thesis by simp
next
  case (CancelBooking ru m bid)
  with cancel_keeps_inv [OF assms(1)] show ?thesis by simp
qed

lemma run_keeps_inv:
  assumes "lo \<le> 0"
  shows "inventory_inv lo hi s i \<Longrightarrow> inventory_inv lo hi (run s acts) i"
proof (induction acts arbitrary: s)
  case Nil
  then show ?case by (simp add: run_def)
next
  case (Cons a acts)
  from step_keeps_inv [OF Cons.prems assms] have "inventory_inv lo hi (step s a) i" .
  from Cons.IH [OF this] show ?case by (simp add: run_def)
qed

lemma seats_in_nonneg:
  assumes "\<forall>b \<in> set (bookings s). b_trip b = i \<longrightarrow> 1 \<le> seats_booked b"
  shows "0 \<le> seats_in st s i"
proof -
  have "\<forall>x \<in> set (filter (\<lambda>b. b_trip b = i \<and> b_status b = st) (bookings s)).
          0 \<le> seats_booked x"
    using assms by auto
  then show ?thesis unfolding seats_in_def by (intro sum_list_nonneg) auto
qed

lemma seats_in_none:
  assumes "\<forall>b \<in> set (bookings s). b_trip b \<noteq> i"
  shows "seats_in st s i = 0"
proof -
  from assms have "filter (\<lambda>b. b_trip b = i \<and> b_status b = st) (bookings s) = []"
    by (simp add: filter_empty_conv)
  then show ?thesis by (simp add: seats_in_def)
qed

text \<open>
  C9. Take a store in which a trip has just been created: it has its row and no booking refers
  to it. After any sequence of booking and booking-cancellation requests, by any callers and
  on any trips and bookings, the trip's \<open>available_seats\<close> is at most its value at creation
  minus the seats of the trip's Confirmed bookings, hence at most that value plus the seats of
  its Cancelled bookings minus the seats of its Confirmed ones; and it is not below zero if
  the trip was created with a seat count that is not negative. In general it is never below
  the smaller of zero and the seat count at creation.
\<close>

theorem inventory_conservation:
  assumes "i < length (trips s0)" and "\<forall>b \<in> set (bookings s0). b_trip b \<noteq> i"
  shows "(0 \<le> seats_now s0 i \<longrightarrow> 0 \<le> seats_now (run s0 acts) i)
         \<and> min 0 (seats_now s0 i) \<le> seats_now (run s0 acts) i
         \<and> seats_now (run s0 acts) i
              \<le> seats_now s0 i - seats_in B_CONFIRMED (run s0 acts) i
         \<and> seats_now (run s0 acts) i
              \<le> seats_now s0 i + seats_in B_CANCELLED (run s0 acts) i
                  - seats_in B_CONFIRMED (run s0 acts) i"
proof -
  from assms(2) have z: "seats_in B_CONFIRMED s0 i = 0" by (rule seats_in_none)
  from assms z have "inventory_inv (min 0 (seats_now s0 i)) (seats_now s0 i) s0 i"
    by (simp add: inventory_inv_def)
  from run_keeps_inv [OF _ this, of acts]
  have inv: "inventory_inv (min 0 (seats_now s0 i)) (seats_now s0 i) (run s0 acts) i"
    by simp
  from inv have pos: "\<forall>b \<in> set (bookings (run s0 acts)). b_trip b = i \<longrightarrow> 1 \<le> seats_booked b"
    and lob: "min 0 (seats_now s0 i) \<le> seats_now (run s0 acts) i"
    and hib: "seats_now (run s0 acts) i + seats_in B_CONFIRMED (run s0 acts) i \<le> seats_now s0 i"
    by (simp_all add: inventory_inv_def)
  from pos have c: "0 \<le> seats_in B_CANCELLED (run s0 acts) i" by (rule seats_in_nonneg)
  from lob hib c show ?thesis by (auto simp: min_def split: if_splits)
qed

theorem inventory_conservation_witness:
  "0 < length (trips (demo_db UPCOMING []))
   \<and> bookings (demo_db UPCOMING []) = []
   \<and> seats_now (demo_db UPCOMING []) 0 = 3
   \<and> 0 \<le> seats_now (run (demo_db UPCOMING [])
                [Book 0 (Some alice) (POST (Some 2)) 0, Book 0 (Some bob) (POST (Some 1)) 0,
                 CancelBooking (Some alice) (POST ()) 0]) 0
   \<and> seats_now (run (demo_db UPCOMING [])
                [Book 0 (Some alice) (POST (Some 2)) 0, Book 0 (Some bob) (POST (Some 1)) 0,
                 CancelBooking (Some alice) (POST ()) 0]) 0
       \<le> 3 - seats_in B_CONFIRMED (run (demo_db UPCOMING [])
                [Book 0 (Some alice) (POST (Some 2)) 0, Book 0 (Some bob) (POST (Some 1)) 0,
                 CancelBooking (Some alice) (POST ()) 0]) 0"
proof -
  let ?acts = "[Book 0 (Some alice) (POST (Some 2)) 0, Book 0 (Some bob) (POST (Some 1)) 0,
                 CancelBooking (Some alice) (POST ()) 0]"
  have a: "0 < length (trips (demo_db UPCOMING []))" by (simp add: demo_db_def)
  have b: "\<forall>b \<in> set (bookings (demo_db UPCOMING [])). b_trip b \<noteq> 0" by (simp add: demo_db_def)
  have c: "seats_now (demo_db UPCOMING []) 0 = 3"
    by (simp add: seats_now_def demo_db_def demo_trip_def)
  from inventory_conservation [OF a b, of ?acts] c
  have d: "0 \<le> seats_now (run (demo_db UPCOMING []) ?acts) 0"
    and e: "seats_now (run (demo_db UPCOMING []) ?acts) 0
              \<le> 3 - seats_in B_CONFIRMED (run (demo_db UPCOMING []) ?acts) 0"
    by simp_all
  have f: "bookings (demo_db UPCOMING []) = []" by (simp add: demo_db_def)
  from a f c d e show ?thesis by (intro conjI)
qed

text \<open>
  The trip form puts no lower bound on \<open>available_seats\<close>. A trip created with \<open>-1\<close>
  seats has a negative seat count from the start, and no booking request changes it.
\<close>

theorem negative_seats_from_creation:
  "0 < length (trips ((demo_db UPCOMING [])
         \<lparr>trips := [(demo_trip UPCOMING)\<lparr>available_seats := - 1\<rparr>]\<rparr>))
   \<and> bookings ((demo_db UPCOMING [])
         \<lparr>trips := [(demo_trip UPCOMING)\<lparr>available_seats := - 1\<rparr>]\<rparr>) = []
   \<and> seats_now (run ((demo_db UPCOMING [])
         \<lparr>trips := [(demo_trip UPCOMING)\<lparr>available_seats := - 1\<rparr>]\<rparr>)
         [Book 0 (Some alice) (POST (Some 1)) 0]) 0 = - 1"
  by (simp add: run_def trip_book_view_def alice_def is_passenger_def get_object_def
      is_bookable_def seats_now_def demo_db_def demo_trip_def)

lemma inventory_after_three_requests:
  "run (demo_db UPCOMING [])
     [Book 0 (Some alice) (POST (Some 2)) 0, Book 0 (Some bob) (POST (Some 1)) 0,
      CancelBooking (Some alice) (POST ()) 0]
   = (demo_db UPCOMING [demo_booking 1 2 B_CANCELLED, demo_booking 2 1 B_CONFIRMED])
       \<lparr>trips := [(demo_trip UPCOMING)\<lparr>available_seats := 2\<rparr>]\<rparr>"
  by (simp add: run_def trip_book_view_def cancel_booking_view_def alice_def bob_def
      is_passenger_def get_object_def is_bookable_def has_confirmed_def BookingForm_clean_def
      decimal_10_2_def in_int64_def demo_db_def demo_trip_def demo_booking_def)

section \<open>Rating a trip\<close>

lemma rate_trip_view_rejects:
  assumes "get_object (bookings s) booking_id = Some booking"
    and "get_object (trips s) (b_trip booking) = Some trip"
    and "t_status trip \<noteq> COMPLETED \<or> (\<exists>u. ru = Some u \<and> has_rating s (b_trip booking) (uid u))"
  shows "\<not> rated (fst (rate_trip_view s ru m booking_id))
         \<and> snd (rate_trip_view s ru m booking_id) = s"
proof (cases ru)
  case None
  then show ?thesis by (simp add: rate_trip_view_def rated_def)
next
  case (Some u)
  with assms show ?thesis by (auto simp: rate_trip_view_def rated_def)
qed

lemma RatingForm_clean_Some:
  assumes "RatingForm_clean raw = Some (dr, vr, c)"
  obtains c0 where "raw = (Some dr, Some vr, c0)" "c = Some (strip c0)"
    "1 \<le> dr" "dr \<le> 5" "1 \<le> vr" "vr \<le> 5"
proof -
  obtain a b c0 where raw: "raw = (a, b, c0)" by (cases raw)
  from assms raw have ok: "star_ok a" "star_ok b"
    by (auto simp: RatingForm_clean_def split: if_splits)
  from ok obtain x y where a: "a = Some x" and b: "b = Some y"
    by (auto simp: star_ok_def split: option.splits)
  from assms raw ok a b have e: "dr = x" "vr = y" "c = Some (strip c0)"
    by (simp_all add: RatingForm_clean_def split: if_splits)
  from ok a b e have r: "1 \<le> dr" "dr \<le> 5" "1 \<le> vr" "vr \<le> 5"
    by (simp_all add: star_ok_def)
  from raw a b e have w: "raw = (Some dr, Some vr, c0)" by simp
  from w e(3) r show thesis by (rule that)
qed

lemma rate_trip_view_done:
  assumes "rated (fst (rate_trip_view s ru m booking_id))"
  obtains u booking trip dr vr c0 where
    "ru = Some u" "is_passenger u"
    "get_object (bookings s) booking_id = Some booking" "b_user booking = uid u"
    "get_object (trips s) (b_trip booking) = Some trip" "t_status trip = COMPLETED"
    "\<not> has_rating s (b_trip booking) (uid u)"
    "m = POST (Some dr, Some vr, c0)" "1 \<le> dr" "dr \<le> 5" "1 \<le> vr" "vr \<le> 5"
    "fk_ok (t_driver trip) (drivers s)" "fk_ok (t_vehicle trip) (vehicles s)"
    "snd (rate_trip_view s ru m booking_id) =
       update_vehicle_average
         (update_driver_average
            (s\<lparr>ratings := ratings s @
                 [\<lparr>r_trip = b_trip booking, r_user = uid u, r_driver = t_driver trip,
                   r_vehicle = t_vehicle trip, driver_rating = Some dr,
                   vehicle_rating = Some vr, driver_comment = Some (strip c0)\<rparr>]\<rparr>)
            (t_driver trip))
         (t_vehicle trip)"
proof -
  from assms obtain u where ru: "ru = Some u" and pu: "is_passenger u"
    by (auto simp: rate_trip_view_def rated_def split: option.splits if_splits)
  from assms ru pu obtain booking where b: "get_object (bookings s) booking_id = Some booking"
    by (auto simp: rate_trip_view_def rated_def split: option.splits)
  from assms ru pu b have ow: "b_user booking = uid u" and dc: "decimal_10_2 (total_price booking)"
    by (auto simp: rate_trip_view_def rated_def split: if_splits)
  from assms ru pu b ow dc obtain trip where
    t: "get_object (trips s) (b_trip booking) = Some trip"
    by (auto simp: rate_trip_view_def rated_def split: option.splits)
  from assms ru pu b ow dc t have st: "t_status trip = COMPLETED"
    and hr: "\<not> has_rating s (b_trip booking) (uid u)"
    by (auto simp: rate_trip_view_def rated_def split: if_splits)
  from assms ru pu b ow dc t st hr obtain raw where m: "m = POST raw"
    by (cases m) (auto simp: rate_trip_view_def rated_def)
  from assms ru pu b ow dc t st hr m obtain dr vr c where
    f: "RatingForm_clean raw = Some (dr, vr, c)"
    by (cases "RatingForm_clean raw") (auto simp: rate_trip_view_def rated_def)
  from f obtain c0 where raw: "raw = (Some dr, Some vr, c0)" and c: "c = Some (strip c0)"
    and rg: "1 \<le> dr" "dr \<le> 5" "1 \<le> vr" "vr \<le> 5"
    by (rule RatingForm_clean_Some)
  from assms ru pu b ow dc t st hr m f have fk: "fk_ok (t_driver trip) (drivers s)"
    "fk_ok (t_vehicle trip) (vehicles s)"
    by (auto simp: rate_trip_view_def rated_def split: if_splits)
  from ru pu b ow dc t st hr m f fk c have
    e: "snd (rate_trip_view s ru m booking_id) =
       update_vehicle_average
         (update_driver_average
            (s\<lparr>ratings := ratings s @
                 [\<lparr>r_trip = b_trip booking, r_user = uid u, r_driver = t_driver trip,
                   r_vehicle = t_vehicle trip, driver_rating = Some dr,
                   vehicle_rating = Some vr, driver_comment = Some (strip c0)\<rparr>]\<rparr>)
            (t_driver trip))
         (t_vehicle trip)"
    by (simp add: rate_trip_view_def)
  from m raw have m': "m = POST (Some dr, Some vr, c0)" by simp
  from ru pu b ow t st hr m' rg fk e show thesis by (rule that)
qed

lemma update_driver_average_frame:
  "ratings (update_driver_average s ref) = ratings s"
  "vehicles (update_driver_average s ref) = vehicles s"
  by (simp_all add: update_driver_average_def Let_def split: option.split)

lemma update_vehicle_average_frame:
  "ratings (update_vehicle_average s ref) = ratings s"
  "drivers (update_vehicle_average s ref) = drivers s"
  by (simp_all add: update_vehicle_average_def Let_def split: option.split)

lemma stars_ratings:
  "ratings s = ratings s' \<Longrightarrow> driver_stars s d = driver_stars s' d"
  "ratings s = ratings s' \<Longrightarrow> vehicle_stars s v = vehicle_stars s' v"
  by (simp_all add: driver_stars_def vehicle_stars_def)

lemma stars_last:
  "ratings s = rs @ [x] \<Longrightarrow> r_driver x = Some d \<Longrightarrow> driver_rating x = Some n \<Longrightarrow>
     driver_stars s d \<noteq> []"
  "ratings s = rs @ [x] \<Longrightarrow> r_vehicle x = Some v \<Longrightarrow> vehicle_rating x = Some k \<Longrightarrow>
     vehicle_stars s v \<noteq> []"
  by (simp_all add: driver_stars_def vehicle_stars_def List.map_filter_def)

lemma drivers_update_driver_average:
  assumes "driver_stars s d \<noteq> []"
  shows "drivers (update_driver_average s (Some d)) =
           (if to_double (mean (driver_stars s d)) = 0 then drivers s
            else (drivers s)[d := (drivers s ! d)
                   \<lparr>d_average_rating := create_decimal_3 (to_double (mean (driver_stars s d)))\<rparr>])"
  using assms by (simp add: update_driver_average_def Avg_def truthy_def Let_def)

lemma vehicles_update_vehicle_average:
  assumes "vehicle_stars s v \<noteq> []"
  shows "vehicles (update_vehicle_average s (Some v)) =
           (if to_double (mean (vehicle_stars s v)) = 0 then vehicles s
            else (vehicles s)[v := (vehicles s ! v)
                   \<lparr>v_average_rating := create_decimal_3 (to_double (mean (vehicle_stars s v)))\<rparr>])"
  using assms by (simp add: update_vehicle_average_def Avg_def truthy_def Let_def)

lemma rate_trip_view_writes:
  assumes "rated (fst (rate_trip_view s ru m booking_id))"
  obtains u booking trip dr vr c0 where
    "ru = Some u" "is_passenger u"
    "get_object (bookings s) booking_id = Some booking" "b_user booking = uid u"
    "get_object (trips s) (b_trip booking) = Some trip" "t_status trip = COMPLETED"
    "\<not> has_rating s (b_trip booking) (uid u)"
    "m = POST (Some dr, Some vr, c0)" "1 \<le> dr" "dr \<le> 5" "1 \<le> vr" "vr \<le> 5"
    "ratings (snd (rate_trip_view s ru m booking_id)) =
       ratings s @
         [\<lparr>r_trip = b_trip booking, r_user = uid u, r_driver = t_driver trip,
           r_vehicle = t_vehicle trip, driver_rating = Some dr,
           vehicle_rating = Some vr, driver_comment = Some (strip c0)\<rparr>]"
    "t_driver trip = None \<longrightarrow> drivers (snd (rate_trip_view s ru m booking_id)) = drivers s"
    "\<forall>d. t_driver trip = Some d \<longrightarrow>
       d < length (drivers s)
       \<and> drivers (snd (rate_trip_view s ru m booking_id)) =
           (if to_double (mean (driver_stars (snd (rate_trip_view s ru m booking_id)) d)) = 0
            then drivers s
            else (drivers s)[d := (drivers s ! d)
                   \<lparr>d_average_rating := create_decimal_3 (to_double (mean
                        (driver_stars (snd (rate_trip_view s ru m booking_id)) d)))\<rparr>])"
    "t_vehicle trip = None \<longrightarrow> vehicles (snd (rate_trip_view s ru m booking_id)) = vehicles s"
    "\<forall>v. t_vehicle trip = Some v \<longrightarrow>
       v < length (vehicles s)
       \<and> vehicles (snd (rate_trip_view s ru m booking_id)) =
           (if to_double (mean (vehicle_stars (snd (rate_trip_view s ru m booking_id)) v)) = 0
            then vehicles s
            else (vehicles s)[v := (vehicles s ! v)
                   \<lparr>v_average_rating := create_decimal_3 (to_double (mean
                        (vehicle_stars (snd (rate_trip_view s ru m booking_id)) v)))\<rparr>])"
proof -
  from assms obtain u booking trip dr vr c0 where
    f: "ru = Some u" "is_passenger u"
    "get_object (bookings s) booking_id = Some booking" "b_user booking = uid u"
    "get_object (trips s) (b_trip booking) = Some trip" "t_status trip = COMPLETED"
    "\<not> has_rating s (b_trip booking) (uid u)"
    "m = POST (Some dr, Some vr, c0)" "1 \<le> dr" "dr \<le> 5" "1 \<le> vr" "vr \<le> 5"
    and fd: "fk_ok (t_driver trip) (drivers s)" and fv: "fk_ok (t_vehicle trip) (vehicles s)"
    and e: "snd (rate_trip_view s ru m booking_id) =
       update_vehicle_average
         (update_driver_average
            (s\<lparr>ratings := ratings s @
                 [\<lparr>r_trip = b_trip booking, r_user = uid u, r_driver = t_driver trip,
                   r_vehicle = t_vehicle trip, driver_rating = Some dr,
                   vehicle_rating = Some vr, driver_comment = Some (strip c0)\<rparr>]\<rparr>)
            (t_driver trip))
         (t_vehicle trip)"
    by (rule rate_trip_view_done)
  define new where "new = \<lparr>r_trip = b_trip booking, r_user = uid u, r_driver = t_driver trip,
                   r_vehicle = t_vehicle trip, driver_rating = Some dr,
                   vehicle_rating = Some vr, driver_comment = Some (strip c0)\<rparr>"
  define s1 where "s1 = s\<lparr>ratings := ratings s @ [new]\<rparr>"
  define s2 where "s2 = update_driver_average s1 (t_driver trip)"
  define R where "R = snd (rate_trip_view s ru m booking_id)"
  from e have R: "R = update_vehicle_average s2 (t_vehicle trip)"
    by (simp add: R_def s2_def s1_def new_def)
  have r1: "ratings s1 = ratings s @ [new]" and d1: "drivers s1 = drivers s"
    and v1: "vehicles s1 = vehicles s"
    by (simp_all add: s1_def)
  have r2: "ratings s2 = ratings s @ [new]" and v2: "vehicles s2 = vehicles s"
    by (simp_all add: s2_def update_driver_average_frame r1 v1)
  have rR: "ratings R = ratings s @ [new]" and dR: "drivers R = drivers s2"
    by (simp_all add: R update_vehicle_average_frame r2)
  have nd: "r_driver new = t_driver trip" "driver_rating new = Some dr"
    "r_vehicle new = t_vehicle trip" "vehicle_rating new = Some vr"
    by (simp_all add: new_def)
  have A: "t_driver trip = None \<longrightarrow> drivers R = drivers s"
    by (simp add: dR s2_def update_driver_average_def d1)
  have B: "\<forall>d. t_driver trip = Some d \<longrightarrow>
       d < length (drivers s)
       \<and> drivers R =
           (if to_double (mean (driver_stars R d)) = 0 then drivers s
            else (drivers s)[d := (drivers s ! d)
                   \<lparr>d_average_rating := create_decimal_3 (to_double (mean (driver_stars R d)))\<rparr>])"
  proof (intro allI impI)
    fix d
    assume td: "t_driver trip = Some d"
    with fd have lt: "d < length (drivers s)" by (simp add: fk_ok_def)
    from r1 nd td have ne: "driver_stars s1 d \<noteq> []" by (simp add: stars_last(1))
    from r1 rR have "ratings s1 = ratings R" by simp
    then have eq: "driver_stars s1 d = driver_stars R d" by (rule stars_ratings(1))
    from drivers_update_driver_average [OF ne] td
    have "drivers s2 =
           (if to_double (mean (driver_stars s1 d)) = 0 then drivers s1
            else (drivers s1)[d := (drivers s1 ! d)
                   \<lparr>d_average_rating := create_decimal_3 (to_double (mean (driver_stars s1 d)))\<rparr>])"
      by (simp add: s2_def)
    with lt show "d < length (drivers s)
       \<and> drivers R =
           (if to_double (mean (driver_stars R d)) = 0 then drivers s
            else (drivers s)[d := (drivers s ! d)
                   \<lparr>d_average_rating := create_decimal_3 (to_double (mean (driver_stars R d)))\<rparr>])"
      by (simp only: dR eq d1 simp_thms)
  qed
  have C: "t_vehicle trip = None \<longrightarrow> vehicles R = vehicles s"
    by (simp add: R update_vehicle_average_def v2)
  have D: "\<forall>v. t_vehicle trip = Some v \<longrightarrow>
       v < length (vehicles s)
       \<and> vehicles R =
           (if to_double (mean (vehicle_stars R v)) = 0 then vehicles s
            else (vehicles s)[v := (vehicles s ! v)
                   \<lparr>v_average_rating := create_decimal_3 (to_double (mean (vehicle_stars R v)))\<rparr>])"
  proof (intro allI impI)
    fix v
    assume tv: "t_vehicle trip = Some v"
    with fv have lt: "v < length (vehicles s)" by (simp add: fk_ok_def)
    from r2 nd tv have ne: "vehicle_stars s2 v \<noteq> []" by (simp add: stars_last(2))
    from r2 rR have "ratings s2 = ratings R" by simp
    then have eq: "vehicle_stars s2 v = vehicle_stars R v" by (rule stars_ratings(2))
    from vehicles_update_vehicle_average [OF ne] tv
    have "vehicles R =
           (if to_double (mean (vehicle_stars s2 v)) = 0 then vehicles s2
            else (vehicles s2)[v := (vehicles s2 ! v)
                   \<lparr>v_average_rating := create_decimal_3 (to_double (mean (vehicle_stars s2 v)))\<rparr>])"
      by (simp add: R)
    with lt show "v < length (vehicles s)
       \<and> vehicles R =
           (if to_double (mean (vehicle_stars R v)) = 0 then vehicles s
            else (vehicles s)[v := (vehicles s ! v)
                   \<lparr>v_average_rating := create_decimal_3 (to_double (mean (vehicle_stars R v)))\<rparr>])"
      by (simp only: eq v2 simp_thms)
  qed
  from f rR A B C D show thesis unfolding R_def new_def by (rule that)
qed

lemma rounding_examples:
  "to_double 4 = 4" "to_double 5 = 5" "to_double (9 / 2) = 9 / 2"
  "create_decimal_3 4 = 4" "create_decimal_3 5 = 5" "create_decimal_3 (9 / 2) = 9 / 2"
  "to_double (13 / 3) \<noteq> 0" "create_decimal_3 (to_double (13 / 3)) = 433 / 100"
  by code_simp+

text \<open>
  C8. A rating request is rejected, and changes nothing, when the trip of the booking is not
  Completed or the caller has already rated that trip. A request that succeeds is a POST by
  the passenger who owns the booking, with both ratings between 1 and 5, on a Completed trip
  the caller has not rated; it appends the rating, referring to the trip's driver and vehicle.
  The driver's \<open>average_rating\<close> is then set from the arithmetic mean of \<open>driver_rating\<close>
  over all ratings that refer to the driver, the new one included: the mean as the double
  the database computes, rounded to the three significant digits of the column, ties to
  even; it is left unchanged only when that double is zero, the aggregate never being null
  after the insertion. The same holds for the vehicle. Every other driver and vehicle row is
  left as it was.
\<close>

theorem rate_trip_effect:
  "(\<forall>booking trip.
       get_object (bookings s) booking_id = Some booking
       \<and> get_object (trips s) (b_trip booking) = Some trip
       \<and> (t_status trip \<noteq> COMPLETED
           \<or> (\<exists>u. ru = Some u \<and> has_rating s (b_trip booking) (uid u))) \<longrightarrow>
       \<not> rated (fst (rate_trip_view s ru m booking_id))
       \<and> snd (rate_trip_view s ru m booking_id) = s)
   \<and> (rated (fst (rate_trip_view s ru m booking_id)) \<longrightarrow>
        (\<exists>u booking trip dr vr c0.
          ru = Some u \<and> is_passenger u
          \<and> get_object (bookings s) booking_id = Some booking \<and> b_user booking = uid u
          \<and> get_object (trips s) (b_trip booking) = Some trip \<and> t_status trip = COMPLETED
          \<and> \<not> has_rating s (b_trip booking) (uid u)
          \<and> m = POST (Some dr, Some vr, c0)
          \<and> 1 \<le> dr \<and> dr \<le> 5 \<and> 1 \<le> vr \<and> vr \<le> 5
          \<and> ratings (snd (rate_trip_view s ru m booking_id)) =
               ratings s @
                 [\<lparr>r_trip = b_trip booking, r_user = uid u, r_driver = t_driver trip,
                   r_vehicle = t_vehicle trip, driver_rating = Some dr,
                   vehicle_rating = Some vr, driver_comment = Some (strip c0)\<rparr>]
          \<and> (t_driver trip = None \<longrightarrow>
                drivers (snd (rate_trip_view s ru m booking_id)) = drivers s)
          \<and> (\<forall>d. t_driver trip = Some d \<longrightarrow>
                d < length (drivers s)
                \<and> drivers (snd (rate_trip_view s ru m booking_id)) =
                    (if to_double (mean (driver_stars (snd (rate_trip_view s ru m booking_id)) d)) = 0
                     then drivers s
                     else (drivers s)[d := (drivers s ! d)
                            \<lparr>d_average_rating := create_decimal_3 (to_double (mean
                                 (driver_stars (snd (rate_trip_view s ru m booking_id)) d)))\<rparr>]))
          \<and> (t_vehicle trip = None \<longrightarrow>
                vehicles (snd (rate_trip_view s ru m booking_id)) = vehicles s)
          \<and> (\<forall>v. t_vehicle trip = Some v \<longrightarrow>
                v < length (vehicles s)
                \<and> vehicles (snd (rate_trip_view s ru m booking_id)) =
                    (if to_double (mean (vehicle_stars (snd (rate_trip_view s ru m booking_id)) v)) = 0
                     then vehicles s
                     else (vehicles s)[v := (vehicles s ! v)
                            \<lparr>v_average_rating := create_decimal_3 (to_double (mean
                                 (vehicle_stars (snd (rate_trip_view s ru m booking_id)) v)))\<rparr>]))))"
proof (rule conjI)
  show "\<forall>booking trip.
       get_object (bookings s) booking_id = Some booking
       \<and> get_object (trips s) (b_trip booking) = Some trip
       \<and> (t_status trip \<noteq> COMPLETED
           \<or> (\<exists>u. ru = Some u \<and> has_rating s (b_trip booking) (uid u))) \<longrightarrow>
       \<not> rated (fst (rate_trip_view s ru m booking_id))
       \<and> snd (rate_trip_view s ru m booking_id) = s"
  proof (intro allI impI)
    fix booking trip
    assume "get_object (bookings s) booking_id = Some booking
       \<and> get_object (trips s) (b_trip booking) = Some trip
       \<and> (t_status trip \<noteq> COMPLETED
           \<or> (\<exists>u. ru = Some u \<and> has_rating s (b_trip booking) (uid u)))"
    then have "get_object (bookings s) booking_id = Some booking"
      and "get_object (trips s) (b_trip booking) = Some trip"
      and "t_status trip \<noteq> COMPLETED
           \<or> (\<exists>u. ru = Some u \<and> has_rating s (b_trip booking) (uid u))"
      by simp_all
    then show "\<not> rated (fst (rate_trip_view s ru m booking_id))
       \<and> snd (rate_trip_view s ru m booking_id) = s"
      by (rule rate_trip_view_rejects)
  qed
next
  show "rated (fst (rate_trip_view s ru m booking_id)) \<longrightarrow>
        (\<exists>u booking trip dr vr c0.
          ru = Some u \<and> is_passenger u
          \<and> get_object (bookings s) booking_id = Some booking \<and> b_user booking = uid u
          \<and> get_object (trips s) (b_trip booking) = Some trip \<and> t_status trip = COMPLETED
          \<and> \<not> has_rating s (b_trip booking) (uid u)
          \<and> m = POST (Some dr, Some vr, c0)
          \<and> 1 \<le> dr \<and> dr \<le> 5 \<and> 1 \<le> vr \<and> vr \<le> 5
          \<and> ratings (snd (rate_trip_view s ru m booking_id)) =
               ratings s @
                 [\<lparr>r_trip = b_trip booking, r_user = uid u, r_driver = t_driver trip,
                   r_vehicle = t_vehicle trip, driver_rating = Some dr,
                   vehicle_rating = Some vr, driver_comment = Some (strip c0)\<rparr>]
          \<and> (t_driver trip = None \<longrightarrow>
                drivers (snd (rate_trip_view s ru m booking_id)) = drivers s)
          \<and> (\<forall>d. t_driver trip = Some d \<longrightarrow>
                d < length (drivers s)
                \<and> drivers (snd (rate_trip_view s ru m booking_id)) =
                    (if to_double (mean (driver_stars (snd (rate_trip_view s ru m booking_id)) d)) = 0
                     then drivers s
                     else (drivers s)[d := (drivers s ! d)
                            \<lparr>d_average_rating := create_decimal_3 (to_double (mean
                                 (driver_stars (snd (rate_trip_view s ru m booking_id)) d)))\<rparr>]))
          \<and> (t_vehicle trip = None \<longrightarrow>
                vehicles (snd (rate_trip_view s ru m booking_id)) = vehicles s)
          \<and> (\<forall>v. t_vehicle trip = Some v \<longrightarrow>
                v < length (vehicles s)
                \<and> vehicles (snd (rate_trip_view s ru m booking_id)) =
                    (if to_double (mean (vehicle_stars (snd (rate_trip_view s ru m booking_id)) v)) = 0
                     then vehicles s
                     else (vehicles s)[v := (vehicles s ! v)
                            \<lparr>v_average_rating := create_decimal_3 (to_double (mean
                                 (vehicle_stars (snd (rate_trip_view s ru m booking_id)) v)))\<rparr>])))"
  proof (rule impI)
    assume "rated (fst (rate_trip_view s ru m booking_id))"
    then show "\<exists>u booking trip dr vr c0.
          ru = Some u \<and> is_passenger u
          \<and> get_object (bookings s) booking_id = Some booking \<and> b_user booking = uid u
          \<and> get_object (trips s) (b_trip booking) = Some trip \<and> t_status trip = COMPLETED
          \<and> \<not> has_rating s (b_trip booking) (uid u)
          \<and> m = POST (Some dr, Some vr, c0)
          \<and> 1 \<le> dr \<and> dr \<le> 5 \<and> 1 \<le> vr \<and> vr \<le> 5
          \<and> ratings (snd (rate_trip_view s ru m booking_id)) =
               ratings s @
                 [\<lparr>r_trip = b_trip booking, r_user = uid u, r_driver = t_driver trip,
                   r_vehicle = t_vehicle trip, driver_rating = Some dr,
                   vehicle_rating = Some vr, driver_comment = Some (strip c0)\<rparr>]
          \<and> (t_driver trip = None \<longrightarrow>
                drivers (snd (rate_trip_view s ru m booking_id)) = drivers s)
          \<and> (\<forall>d. t_driver trip = Some d \<longrightarrow>
                d < length (drivers s)
                \<and> drivers (snd (rate_trip_view s ru m booking_id)) =
                    (if to_double (mean (driver_stars (snd (rate_trip_view s ru m booking_id)) d)) = 0
                     then drivers s
                     else (drivers s)[d := (drivers s ! d)
                            \<lparr>d_average_rating := create_decimal_3 (to_double (mean
                                 (driver_stars (snd (rate_trip_view s ru m booking_id)) d)))\<rparr>]))
          \<and> (t_vehicle trip = None \<longrightarrow>
                vehicles (snd (rate_trip_view s ru m booking_id)) = vehicles s)
          \<and> (\<forall>v. t_vehicle trip = Some v \<longrightarrow>
                v < length (vehicles s)
                \<and> vehicles (snd (rate_trip_view s ru m booking_id)) =
                    (if to_double (mean (vehicle_stars (snd (rate_trip_view s ru m booking_id)) v)) = 0
                     then vehicles s
                     else (vehicles s)[v := (vehicles s ! v)
                            \<lparr>v_average_rating := create_decimal_3 (to_double (mean
                                 (vehicle_stars (snd (rate_trip_view s ru m booking_id)) v)))\<rparr>]))"
    proof (rule rate_trip_view_writes)
      fix u booking trip dr vr c0
      assume "ru = Some u" "is_passenger u"
        "get_object (bookings s) booking_id = Some booking" "b_user booking = uid u"
        "get_object (trips s) (b_trip booking) = Some trip" "t_status trip = COMPLETED"
        "\<not> has_rating s (b_trip booking) (uid u)"
        "m = POST (Some dr, Some vr, c0)" "1 \<le> dr" "dr \<le> 5" "1 \<le> vr" "vr \<le> 5"
        "ratings (snd (rate_trip_view s ru m booking_id)) =
           ratings s @
             [\<lparr>r_trip = b_trip booking, r_user = uid u, r_driver = t_driver trip,
               r_vehicle = t_vehicle trip, driver_rating = Some dr,
               vehicle_rating = Some vr, driver_comment = Some (strip c0)\<rparr>]"
        "t_driver trip = None \<longrightarrow> drivers (snd (rate_trip_view s ru m booking_id)) = drivers s"
        "\<forall>d. t_driver trip = Some d \<longrightarrow>
           d < length (drivers s)
           \<and> drivers (snd (rate_trip_view s ru m booking_id)) =
               (if to_double (mean (driver_stars (snd (rate_trip_view s ru m booking_id)) d)) = 0
                then drivers s
                else (drivers s)[d := (drivers s ! d)
                       \<lparr>d_average_rating := create_decimal_3 (to_double (mean
                            (driver_stars (snd (rate_trip_view s ru m booking_id)) d)))\<rparr>])"
        "t_vehicle trip = None \<longrightarrow> vehicles (snd (rate_trip_view s ru m booking_id)) = vehicles s"
        "\<forall>v. t_vehicle trip = Some v \<longrightarrow>
           v < length (vehicles s)
           \<and> vehicles (snd (rate_trip_view s ru m booking_id)) =
               (if to_double (mean (vehicle_stars (snd (rate_trip_view s ru m booking_id)) v)) = 0
                then vehicles s
                else (vehicles s)[v := (vehicles s ! v)
                       \<lparr>v_average_rating := create_decimal_3 (to_double (mean
                            (vehicle_stars (snd (rate_trip_view s ru m booking_id)) v)))\<rparr>])"
      then show "\<exists>u booking trip dr vr c0.
          ru = Some u \<and> is_passenger u
          \<and> get_object (bookings s) booking_id = Some booking \<and> b_user booking = uid u
          \<and> get_object (trips s) (b_trip booking) = Some trip \<and> t_status trip = COMPLETED
          \<and> \<not> has_rating s (b_trip booking) (uid u)
          \<and> m = POST (Some dr, Some vr, c0)
          \<and> 1 \<le> dr \<and> dr \<le> 5 \<and> 1 \<le> vr \<and> vr \<le> 5
          \<and> ratings (snd (rate_trip_view s ru m booking_id)) =
               ratings s @
                 [\<lparr>r_trip = b_trip booking, r_user = uid u, r_driver = t_driver trip,
                   r_vehicle = t_vehicle trip, driver_rating = Some dr,
                   vehicle_rating = Some vr, driver_comment = Some (strip c0)\<rparr>]
          \<and> (t_driver trip = None \<longrightarrow>
                drivers (snd (rate_trip_view s ru m booking_id)) = drivers s)
          \<and> (\<forall>d. t_driver trip = Some d \<longrightarrow>
                d < length (drivers s)
                \<and> drivers (snd (rate_trip_view s ru m booking_id)) =
                    (if to_double (mean (driver_stars (snd (rate_trip_view s ru m booking_id)) d)) = 0
                     then drivers s
                     else (drivers s)[d := (drivers s ! d)
                            \<lparr>d_average_rating := create_decimal_3 (to_double (mean
                                 (driver_stars (snd (rate_trip_view s ru m booking_id)) d)))\<rparr>]))
          \<and> (t_vehicle trip = None \<longrightarrow>
                vehicles (snd (rate_trip_view s ru m booking_id)) = vehicles s)
          \<and> (\<forall>v. t_vehicle trip = Some v \<longrightarrow>
                v < length (vehicles s)
                \<and> vehicles (snd (rate_trip_view s ru m booking_id)) =
                    (if to_double (mean (vehicle_stars (snd (rate_trip_view s ru m booking_id)) v)) = 0
                     then vehicles s
                     else (vehicles s)[v := (vehicles s ! v)
                            \<lparr>v_average_rating := create_decimal_3 (to_double (mean
                                 (vehicle_stars (snd (rate_trip_view s ru m booking_id)) v)))\<rparr>]))"
        by (intro exI conjI)
    qed
  qed
qed

theorem rate_trip_effect_witness:
  "rate_trip_view
     (demo_db COMPLETED [demo_booking 1 1 B_COMPLETED, demo_booking 2 1 B_COMPLETED])
     (Some alice) (POST (Some 4, Some 5, [])) 0
   = (Redirect ''core:my_bookings'' (Some SUCCESS),
      (demo_db COMPLETED [demo_booking 1 1 B_COMPLETED, demo_booking 2 1 B_COMPLETED])
        \<lparr>ratings := [demo_rating 1 4 5 []],
         drivers := [\<lparr>d_user = 3, d_average_rating = 4, total_trips = 0, d_status = ON_TRIP\<rparr>],
         vehicles := [\<lparr>capacity = 4, v_average_rating = 5\<rparr>]\<rparr>)
   \<and> rated (fst (rate_trip_view
      ((demo_db COMPLETED [demo_booking 1 1 B_COMPLETED, demo_booking 2 1 B_COMPLETED])
        \<lparr>ratings := [demo_rating 1 4 5 []],
         drivers := [\<lparr>d_user = 3, d_average_rating = 4, total_trips = 0, d_status = ON_TRIP\<rparr>],
         vehicles := [\<lparr>capacity = 4, v_average_rating = 5\<rparr>]\<rparr>)
      (Some bob) (POST (Some 5, Some 4, [])) 1))
   \<and> map d_average_rating (drivers (snd (rate_trip_view
      ((demo_db COMPLETED [demo_booking 1 1 B_COMPLETED, demo_booking 2 1 B_COMPLETED])
        \<lparr>ratings := [demo_rating 1 4 5 []],
         drivers := [\<lparr>d_user = 3, d_average_rating = 4, total_trips = 0, d_status = ON_TRIP\<rparr>],
         vehicles := [\<lparr>capacity = 4, v_average_rating = 5\<rparr>]\<rparr>)
      (Some bob) (POST (Some 5, Some 4, [])) 1))) = [9 / 2]"
proof -
  let ?s0 = "demo_db COMPLETED [demo_booking 1 1 B_COMPLETED, demo_booking 2 1 B_COMPLETED]"
  let ?S1 = "?s0\<lparr>ratings := [demo_rating 1 4 5 []],
         drivers := [\<lparr>d_user = 3, d_average_rating = 4, total_trips = 0, d_status = ON_TRIP\<rparr>],
         vehicles := [\<lparr>capacity = 4, v_average_rating = 5\<rparr>]\<rparr>"
  let ?r2 = "rate_trip_view ?S1 (Some bob) (POST (Some 5, Some 4, [])) 1"
  have e1: "rate_trip_view ?s0 (Some alice) (POST (Some 4, Some 5, [])) 0
              = (Redirect ''core:my_bookings'' (Some SUCCESS), ?S1)"
    by (simp add: rate_trip_view_def alice_def is_passenger_def get_object_def decimal_10_2_def
        has_rating_def RatingForm_clean_def star_ok_def strip_def fk_ok_def
        update_driver_average_def update_vehicle_average_def Avg_def truthy_def mean_def
        driver_stars_def vehicle_stars_def List.map_filter_def rounding_examples
        demo_db_def demo_trip_def demo_booking_def demo_rating_def)
  have a2: "rated (fst ?r2)"
    by (simp add: rate_trip_view_def rated_def bob_def is_passenger_def get_object_def
        decimal_10_2_def has_rating_def RatingForm_clean_def star_ok_def strip_def fk_ok_def
        demo_db_def demo_trip_def demo_booking_def demo_rating_def)
  have "rated (fst ?r2) \<longrightarrow>
        (\<exists>u booking trip dr vr c0.
          Some bob = Some u \<and> is_passenger u
          \<and> get_object (bookings ?S1) 1 = Some booking \<and> b_user booking = uid u
          \<and> get_object (trips ?S1) (b_trip booking) = Some trip \<and> t_status trip = COMPLETED
          \<and> \<not> has_rating ?S1 (b_trip booking) (uid u)
          \<and> POST (Some 5, Some 4, []) = POST (Some dr, Some vr, c0)
          \<and> 1 \<le> dr \<and> dr \<le> 5 \<and> 1 \<le> vr \<and> vr \<le> 5
          \<and> ratings (snd ?r2) =
               ratings ?S1 @
                 [\<lparr>r_trip = b_trip booking, r_user = uid u, r_driver = t_driver trip,
                   r_vehicle = t_vehicle trip, driver_rating = Some dr,
                   vehicle_rating = Some vr, driver_comment = Some (strip c0)\<rparr>]
          \<and> (t_driver trip = None \<longrightarrow> drivers (snd ?r2) = drivers ?S1)
          \<and> (\<forall>d. t_driver trip = Some d \<longrightarrow>
                d < length (drivers ?S1)
                \<and> drivers (snd ?r2) =
                    (if to_double (mean (driver_stars (snd ?r2) d)) = 0
                     then drivers ?S1
                     else (drivers ?S1)[d := (drivers ?S1 ! d)
                            \<lparr>d_average_rating := create_decimal_3 (to_double (mean
                                 (driver_stars (snd ?r2) d)))\<rparr>]))
          \<and> (t_vehicle trip = None \<longrightarrow> vehicles (snd ?r2) = vehicles ?S1)
          \<and> (\<forall>v. t_vehicle trip = Some v \<longrightarrow>
                v < length (vehicles ?S1)
                \<and> vehicles (snd ?r2) =
                    (if to_double (mean (vehicle_stars (snd ?r2) v)) = 0
                     then vehicles ?S1
                     else (vehicles ?S1)[v := (vehicles ?S1 ! v)
                            \<lparr>v_average_rating := create_decimal_3 (to_double (mean
                                 (vehicle_stars (snd ?r2) v)))\<rparr>])))"
    by (rule rate_trip_effect [THEN conjunct2])
  from this a2 have "\<exists>u booking trip dr vr c0.
          Some bob = Some u \<and> is_passenger u
          \<and> get_object (bookings ?S1) 1 = Some booking \<and> b_user booking = uid u
          \<and> get_object (trips ?S1) (b_trip booking) = Some trip \<and> t_status trip = COMPLETED
          \<and> \<not> has_rating ?S1 (b_trip booking) (uid u)
          \<and> POST (Some 5, Some 4, []) = POST (Some dr, Some vr, c0)
          \<and> 1 \<le> dr \<and> dr \<le> 5 \<and> 1 \<le> vr \<and> vr \<le> 5
          \<and> ratings (snd ?r2) =
               ratings ?S1 @
                 [\<lparr>r_trip = b_trip booking, r_user = uid u, r_driver = t_driver trip,
                   r_vehicle = t_vehicle trip, driver_rating = Some dr,
                   vehicle_rating = Some vr, driver_comment = Some (strip c0)\<rparr>]
          \<and> (t_driver trip = None \<longrightarrow> drivers (snd ?r2) = drivers ?S1)
          \<and> (\<forall>d. t_driver trip = Some d \<longrightarrow>
                d < length (drivers ?S1)
                \<and> drivers (snd ?r2) =
                    (if to_double (mean (driver_stars (snd ?r2) d)) = 0
                     then drivers ?S1
                     else (drivers ?S1)[d := (drivers ?S1 ! d)
                            \<lparr>d_average_rating := create_decimal_3 (to_double (mean
                                 (driver_stars (snd ?r2) d)))\<rparr>]))
          \<and> (t_vehicle trip = None \<longrightarrow> vehicles (snd ?r2) = vehicles ?S1)
          \<and> (\<forall>v. t_vehicle trip = Some v \<longrightarrow>
                v < length (vehicles ?S1)
                \<and> vehicles (snd ?r2) =
                    (if to_double (mean (vehicle_stars (snd ?r2) v)) = 0
                     then vehicles ?S1
                     else (vehicles ?S1)[v := (vehicles ?S1 ! v)
                            \<lparr>v_average_rating := create_decimal_3 (to_double (mean
                                 (vehicle_stars (snd ?r2) v)))\<rparr>]))"
    by (rule mp)
  then obtain u booking trip dr vr c0 where
    u0: "Some bob = Some u"
    and gb: "get_object (bookings ?S1) 1 = Some booking"
    and bu: "b_user booking = uid u"
    and gt: "get_object (trips ?S1) (b_trip booking) = Some trip"
    and m: "POST (Some (5::int), Some (4::int), []) = POST (Some dr, Some vr, c0)"
    and rs: "ratings (snd ?r2) =
               ratings ?S1 @
                 [\<lparr>r_trip = b_trip booking, r_user = uid u, r_driver = t_driver trip,
                   r_vehicle = t_vehicle trip, driver_rating = Some dr,
                   vehicle_rating = Some vr, driver_comment = Some (strip c0)\<rparr>]"
    and D: "\<forall>d. t_driver trip = Some d \<longrightarrow>
                d < length (drivers ?S1)
                \<and> drivers (snd ?r2) =
                    (if to_double (mean (driver_stars (snd ?r2) d)) = 0
                     then drivers ?S1
                     else (drivers ?S1)[d := (drivers ?S1 ! d)
                            \<lparr>d_average_rating := create_decimal_3 (to_double (mean
                                 (driver_stars (snd ?r2) d)))\<rparr>])"
    by (elim exE conjE)
  from gb have b: "booking = demo_booking 2 1 B_COMPLETED"
    by (simp add: get_object_def demo_db_def)
  from gt b have t: "trip = demo_trip COMPLETED"
    by (simp add: get_object_def demo_db_def demo_booking_def)
  from m have dr: "dr = 5" by simp
  from t have td: "t_driver trip = Some 0" by (simp add: demo_trip_def)
  from rs td dr have st: "driver_stars (snd ?r2) 0 = [4, 5]"
    by (simp add: driver_stars_def List.map_filter_def demo_rating_def)
  from D have "t_driver trip = Some 0 \<longrightarrow>
                0 < length (drivers ?S1)
                \<and> drivers (snd ?r2) =
                    (if to_double (mean (driver_stars (snd ?r2) 0)) = 0
                     then drivers ?S1
                     else (drivers ?S1)[0 := (drivers ?S1 ! 0)
                            \<lparr>d_average_rating := create_decimal_3 (to_double (mean
                                 (driver_stars (snd ?r2) 0)))\<rparr>])"
    by (rule spec)
  from this td have "0 < length (drivers ?S1)
                \<and> drivers (snd ?r2) =
                    (if to_double (mean (driver_stars (snd ?r2) 0)) = 0
                     then drivers ?S1
                     else (drivers ?S1)[0 := (drivers ?S1 ! 0)
                            \<lparr>d_average_rating := create_decimal_3 (to_double (mean
                                 (driver_stars (snd ?r2) 0)))\<rparr>])"
    by (rule mp)
  then have "drivers (snd ?r2) =
                    (if to_double (mean (driver_stars (snd ?r2) 0)) = 0
                     then drivers ?S1
                     else (drivers ?S1)[0 := (drivers ?S1 ! 0)
                            \<lparr>d_average_rating := create_decimal_3 (to_double (mean
                                 (driver_stars (snd ?r2) 0)))\<rparr>])"
    by (rule conjunct2)
  then have D3: "drivers (snd ?r2) =
                    (if to_double (mean [4, 5]) = 0
                     then drivers ?S1
                     else (drivers ?S1)[0 := (drivers ?S1 ! 0)
                            \<lparr>d_average_rating := create_decimal_3 (to_double (mean [4, 5]))\<rparr>])"
    by (simp only: st)
  have mn: "mean [4, 5] = 9 / 2" by (simp add: mean_def)
  have "map d_average_rating
          (if to_double (mean [4, 5]) = 0
                     then drivers ?S1
                     else (drivers ?S1)[0 := (drivers ?S1 ! 0)
                            \<lparr>d_average_rating := create_decimal_3 (to_double (mean [4, 5]))\<rparr>])
        = [9 / 2]"
    by (simp add: mn rounding_examples demo_db_def)
  then have "map d_average_rating (drivers (snd ?r2)) = [9 / 2]"
    by (simp only: D3)
  with e1 a2 show ?thesis by (intro conjI)
qed

text \<open>
  The stored average is not the arithmetic mean itself: after ratings of 4, 4 and 5 for one
  driver the mean is \<open>13 / 3\<close>, and the column of three digits holds 4.33.
\<close>

theorem stored_average_is_rounded:
  "rated (fst (rate_trip_view
      ((demo_db COMPLETED [demo_booking 1 1 B_COMPLETED])
         \<lparr>ratings := [demo_rating 2 4 4 [], demo_rating 4 4 4 []]\<rparr>)
      (Some alice) (POST (Some 5, Some 5, [])) 0))
   \<and> driver_stars (snd (rate_trip_view
      ((demo_db COMPLETED [demo_booking 1 1 B_COMPLETED])
         \<lparr>ratings := [demo_rating 2 4 4 [], demo_rating 4 4 4 []]\<rparr>)
      (Some alice) (POST (Some 5, Some 5, [])) 0)) 0 = [4, 4, 5]
   \<and> mean [4, 4, 5] = 13 / 3
   \<and> map d_average_rating (drivers (snd (rate_trip_view
      ((demo_db COMPLETED [demo_booking 1 1 B_COMPLETED])
         \<lparr>ratings := [demo_rating 2 4 4 [], demo_rating 4 4 4 []]\<rparr>)
      (Some alice) (POST (Some 5, Some 5, [])) 0))) = [433 / 100]"
proof -
  let ?s = "(demo_db COMPLETED [demo_booking 1 1 B_COMPLETED])
         \<lparr>ratings := [demo_rating 2 4 4 [], demo_rating 4 4 4 []]\<rparr>"
  let ?r = "rate_trip_view ?s (Some alice) (POST (Some 5, Some 5, [])) 0"
  have a: "rated (fst ?r)"
    by (simp add: rate_trip_view_def rated_def alice_def is_passenger_def get_object_def
        decimal_10_2_def has_rating_def RatingForm_clean_def star_ok_def strip_def fk_ok_def
        demo_db_def demo_trip_def demo_booking_def demo_rating_def)
  have b: "driver_stars (snd ?r) 0 = [4, 4, 5]"
    by (simp add: rate_trip_view_def alice_def is_passenger_def get_object_def decimal_10_2_def
        has_rating_def RatingForm_clean_def star_ok_def strip_def fk_ok_def
        update_driver_average_frame update_vehicle_average_frame
        driver_stars_def List.map_filter_def
        demo_db_def demo_trip_def demo_booking_def demo_rating_def)
  have c: "mean [4, 4, 5] = 13 / 3" by (simp add: mean_def)
  have d: "map d_average_rating (drivers (snd ?r)) = [433 / 100]"
    by (simp add: rate_trip_view_def alice_def is_passenger_def get_object_def decimal_10_2_def
        has_rating_def RatingForm_clean_def star_ok_def strip_def fk_ok_def
        update_driver_average_def update_vehicle_average_frame Avg_def truthy_def mean_def
        driver_stars_def List.map_filter_def rounding_examples
        demo_db_def demo_trip_def demo_booking_def demo_rating_def)
  from a b c d show ?thesis by (intro conjI)
qed

end
